theory Spec2Isabelle
  imports Main
begin

section \<open>The release script \<^verbatim>\<open>scripts/publish\<close>\<close>

text \<open>
  The script is a bash program run under \<^verbatim>\<open>set -euo pipefail\<close>. It is a straight line of
  external commands (node, npm, yarn, git, hub, which), of tests on their exit statuses
  and outputs, and of messages written with \<^verbatim>\<open>echo\<close> and \<^verbatim>\<open>cat\<close>.

  The embedding keeps the script's shape. A run is a function of the argument list and of
  an environment that answers every external command (exit status, standard output). It
  returns the trace of what the script did, in order (every command it started and every
  line it printed), and the exit code of the process. An exit status is a natural number,
  0 for success.
\<close>

subsection \<open>Commands and events\<close>

text \<open>
  One constructor for each command line of the script. Where the script splices a variable
  into the command line, the constructor carries the spliced words.
\<close>

datatype cmd =
    Node_is_release_candidate            \<comment> \<open>\<^verbatim>\<open>node scripts/is_release_candidate.js\<close>, line 7\<close>
  | Cd_toplevel                          \<comment> \<open>\<^verbatim>\<open>cd "$(git rev-parse --show-toplevel)"\<close>, line 178\<close>
  | Npm_whoami                           \<comment> \<open>line 24\<close>
  | Yarn_login                           \<comment> \<open>\<^verbatim>\<open>yarn login --silent\<close>, line 31\<close>
  | Which_hub                            \<comment> \<open>\<^verbatim>\<open>which hub\<close>, line 38\<close>
  | Git_config_get string                \<comment> \<open>\<^verbatim>\<open>git config --get KEY\<close>, lines 51, 58, 65, 73\<close>
  | Git_fetch                            \<comment> \<open>line 183\<close>
  | Git_status                           \<comment> \<open>line 185\<close>
  | Yarn_install                         \<comment> \<open>\<^verbatim>\<open>yarn install --frozen-lockfile\<close>, line 203\<close>
  | Yarn_version "string list"           \<comment> \<open>\<^verbatim>\<open>yarn version FLAGS\<close>, lines 213, 219, 225\<close>
  | Yarn_run_build                       \<comment> \<open>line 229\<close>
  | Yarn_run_test                        \<comment> \<open>line 232\<close>
  | Git_log_head                         \<comment> \<open>\<^verbatim>\<open>git log -1 --format="%H"\<close>, line 133\<close>
  | Git_show_signature string            \<comment> \<open>\<^verbatim>\<open>git show --no-patch --pretty=format:"%G?" HASH | grep "N"\<close>, line 135\<close>
  | Git_push                             \<comment> \<open>\<^verbatim>\<open>git push --follow-tags\<close>, line 237\<close>
  | Which_hub_grep                       \<comment> \<open>\<^verbatim>\<open>which hub | grep -q "not found"\<close>, line 83\<close>
  | Git_tag_list                         \<comment> \<open>\<^verbatim>\<open>git tag --sort version:refname | grep '^v' | grep -v "rc" | tail -n 2\<close>, line 89\<close>
  | Git_log_range string                 \<comment> \<open>\<^verbatim>\<open>git log --pretty=format:"- %s" RANGE\<close>, line 99\<close>
  | Hub_release_create string string     \<comment> \<open>\<^verbatim>\<open>hub release create -em NOTES TAG\<close>, line 120\<close>
  | Yarn_publish "string list"           \<comment> \<open>\<^verbatim>\<open>yarn --ignore-scripts publish FLAGS\<close>, lines 247, 249\<close>

datatype event =
    Echo string        \<comment> \<open>a line written to standard output by the script itself\<close>
  | Echo_n string      \<comment> \<open>\<^verbatim>\<open>echo -n\<close>: text with no newline after it\<close>
  | Run cmd            \<comment> \<open>an external command was started\<close>

subsection \<open>The environment\<close>

text \<open>
  The answers of the outside world. The script \<^verbatim>\<open>scripts/is_release_candidate.js\<close> is
  not among the sources, so what it prints is a parameter: the field
  \<open>is_release_candidate_out\<close> is its output as bash's \<^verbatim>\<open>[ ... -eq 1 ]\<close> reads it, \<open>Some n\<close>
  for the integer \<open>n\<close> and \<open>None\<close> for text that is no integer.

  \<open>git_tag_out\<close> is the output of \<^verbatim>\<open>git tag --sort version:refname\<close>, one tag name for
  each line; \<open>git_log_subjects\<close> gives, for a revision range, the subject lines of the
  commits in it, which \<^verbatim>\<open>--pretty=format:"- %s"\<close> prints as one line \<^verbatim>\<open>- SUBJECT\<close> for each
  commit. The other outputs are plain text with newline characters.
\<close>

record env =
  node_status :: nat
  is_release_candidate_out :: "int option"
  cd_status :: nat
  npm_whoami_status :: nat
  yarn_login_status :: nat
  which_hub_status :: nat
  github_token :: "string option"
  git_config_out :: "string \<Rightarrow> string"
  file_exists :: "string \<Rightarrow> bool"
  git_fetch_status :: nat
  git_status_status :: nat
  git_status_out :: string
  yarn_install_status :: nat
  yarn_version_status :: "string list \<Rightarrow> nat"
  yarn_build_status :: nat
  yarn_test_status :: nat
  git_log_head_out :: string
  git_show_status :: "string \<Rightarrow> nat"
  git_show_out :: "string \<Rightarrow> string"
  git_push_status :: nat
  which_hub_grep_status :: nat
  which_hub_grep_out :: string
  git_tag_out :: "string list"
  git_log_subjects :: "string \<Rightarrow> string list"
  hub_release_status :: "string \<Rightarrow> string \<Rightarrow> nat"
  yarn_publish_status :: "string list \<Rightarrow> nat"

subsection \<open>grep\<close>

text \<open>
  The patterns of the script are basic regular expressions made of literal characters and
  of the dot, which matches any character of a line. \<open>grep_q p s\<close> is the exit status of
  \<^verbatim>\<open>grep -q p\<close> on the text \<open>s\<close>, read as success: some line of \<open>s\<close> has a match.
\<close>

datatype pat = Lit char | Dot

fun match_here :: "pat list \<Rightarrow> string \<Rightarrow> bool" where
  "match_here [] s = True"
| "match_here (p # ps) [] = False"
| "match_here (Lit c # ps) (x # xs) = (x = c \<and> match_here ps xs)"
| "match_here (Dot # ps) (x # xs) = (x \<noteq> CHR 0x0A \<and> match_here ps xs)"

fun grep_q :: "pat list \<Rightarrow> string \<Rightarrow> bool" where
  "grep_q p [] = match_here p []"
| "grep_q p (x # xs) = (match_here p (x # xs) \<or> grep_q p xs)"

definition lits :: "string \<Rightarrow> pat list" where
  "lits s = map Lit s"

subsection \<open>Sequencing under \<^verbatim>\<open>set -e\<close>\<close>

text \<open>
  A piece of the script yields the events it produced and \<open>Some c\<close> when it ended the
  process with exit code \<open>c\<close>, \<open>None\<close> when control goes on to the next piece.
\<close>

type_synonym phase = "event list \<times> nat option"

fun run_phases :: "phase list \<Rightarrow> phase" where
  "run_phases [] = ([], None)"
| "run_phases (p # ps) =
     (case snd p of
        Some c \<Rightarrow> p
      | None \<Rightarrow> (case run_phases ps of (tr, r) \<Rightarrow> (fst p @ tr, r)))"

definition exec_cmd :: "cmd \<Rightarrow> nat \<Rightarrow> phase" where
  \<comment> \<open>a simple command: under \<^verbatim>\<open>set -e\<close> a non-zero status ends the script with that status\<close>
  "exec_cmd c st = ([Run c], if st = 0 then None else Some st)"

definition echo :: "string \<Rightarrow> phase" where
  "echo s = ([Echo s], None)"

definition guard :: "event list \<Rightarrow> bool \<Rightarrow> string list \<Rightarrow> phase" where
  \<comment> \<open>\<^verbatim>\<open>if COND; then echo ...; exit 1; fi\<close>, where evaluating COND runs the commands \<open>evs\<close>\<close>
  "guard evs failed msgs = (if failed then (evs @ map Echo msgs, Some 1) else (evs, None))"

subsection \<open>The functions of the script\<close>

definition echo_help :: "event list" where
  \<open>echo_help = map Echo
     [''USAGE:'',
      ''    ./scripts/publish <release_type>'',
      '''',
      ''ARGS:'',
      ''    <release_type>'',
      ''            A Semantic Versioning release type used to bump the version number. Either "patch", "minor", or "major".'']\<close>

definition verify_prerequisites :: "env \<Rightarrow> phase" where
  "verify_prerequisites e = run_phases
     [echo ''Verifying prerequisites...'',
      guard [Run Npm_whoami] (npm_whoami_status e \<noteq> 0)
        [''Error! You are not logged in to npm.'',
         ''Please run 'npm login' and try again.''],
      guard [Run Yarn_login] (yarn_login_status e \<noteq> 0)
        [''Error! You are not logged in to yarn.'',
         ''Please run 'yarn login' and try again.''],
      guard [Run Which_hub] (which_hub_status e \<noteq> 0)
        [''Error! 'hub' command not found.'',
         ''Please install hub with 'brew install hub'.''],
      guard [] (case github_token e of None \<Rightarrow> True | Some t \<Rightarrow> t = [])
        [''Error! GITHUB_TOKEN environment variable is not set.''],
      guard [Run (Git_config_get ''gpg.format'')] (git_config_out e ''gpg.format'' \<noteq> ''ssh'')
        [''Error! Git is not configured to use SSH for commit signing.'',
         ''Please run: git config --global gpg.format ssh''],
      guard [Run (Git_config_get ''user.signingkey'')] (git_config_out e ''user.signingkey'' = [])
        [''Error! Git signing key is not configured.'',
         ''Please run: git config --global user.signingkey ~/.ssh/id_ed25519.pub''],
      guard [Run (Git_config_get ''user.signingkey'')]
        (\<not> file_exists e (git_config_out e ''user.signingkey''))
        [''Error! Git signing key does not exist at: '' @ git_config_out e ''user.signingkey'',
         ''Please set up SSH key for signing as described in the documentation.''],
      guard [Run (Git_config_get ''commit.gpgsign'')] (git_config_out e ''commit.gpgsign'' \<noteq> ''true'')
        [''Error! Git commit signing is not enabled.'',
         ''Please run: git config --global commit.gpgsign true''],
      echo ''All prerequisites verified successfully!'']"

definition create_github_release_fallback :: "event list" where
  "create_github_release_fallback = map Echo
     [''Remember to create a release on GitHub with a changelog notes:'',
      '''',
      ''    https://github.com/stripe/stripe-js/releases/new'',
      '''']"

fun join_lines :: "string list \<Rightarrow> string" where
  \<comment> \<open>lines separated by newline characters, none after the last\<close>
  "join_lines [] = []"
| "join_lines [l] = l"
| "join_lines (l # m # ls) = l @ CHR 0x0A # join_lines (m # ls)"

definition qualifying_tags :: "string list \<Rightarrow> string list" where
  \<comment> \<open>\<^verbatim>\<open>grep '^v' | grep -v "rc"\<close> on the lines of the tag list\<close>
  "qualifying_tags tags =
     filter (\<lambda>t. \<not> grep_q (lits ''rc'') t) (filter (\<lambda>t. match_here (lits ''v'') t) tags)"

definition tail_2 :: "'a list \<Rightarrow> 'a list" where
  \<comment> \<open>\<^verbatim>\<open>tail -n 2\<close>\<close>
  "tail_2 xs = drop (length xs - 2) xs"

definition release_notes :: "string \<Rightarrow> string \<Rightarrow> string" where
  "release_notes current_version commit_titles = join_lines
     [current_version,
      '''',
      ''<!-- Please group the following commits into one of the sections below. -->'',
      ''<!-- Remove empty sections when done. -->'',
      '''',
      commit_titles,
      '''',
      ''### New features'',
      '''',
      ''### Fixes'',
      '''',
      ''### Changed'']"

definition hub_not_found :: "env \<Rightarrow> bool" where
  \<comment> \<open>the condition of line 83; with \<^verbatim>\<open>pipefail\<close> the pipeline succeeds when both sides do\<close>
  "hub_not_found e =
     (which_hub_grep_status e = 0 \<and> grep_q (lits ''not found'') (which_hub_grep_out e))"

definition create_github_release :: "env \<Rightarrow> phase" where
  "create_github_release e =
     (if hub_not_found e
      then (Run Which_hub_grep # create_github_release_fallback, None)
      else
        let versions = tail_2 (qualifying_tags (git_tag_out e)) in
        if length versions \<noteq> 2
        then ([Run Which_hub_grep, Run Git_tag_list] @ create_github_release_fallback, None)
        else
          let previous_version = versions ! 0;
              current_version = versions ! 1;
              range = previous_version @ ''..'' @ current_version @ ''^'';
              commit_titles = join_lines (map (\<lambda>s. ''- '' @ s) (git_log_subjects e range));
              notes = release_notes current_version commit_titles;
              st = hub_release_status e notes current_version
          in ([Run Which_hub_grep, Run Git_tag_list, Run (Git_log_range range),
               Echo ''Creating GitHub release'', Echo '''', Echo_n ''    '',
               Run (Hub_release_create notes current_version)],
              if st = 0 then None else Some st))"

definition commit_unsigned :: "env \<Rightarrow> bool" where
  \<comment> \<open>the condition of line 135; with \<^verbatim>\<open>pipefail\<close> the pipeline succeeds when both sides do\<close>
  "commit_unsigned e =
     (git_show_status e (git_log_head_out e) = 0
      \<and> grep_q (lits ''N'') (git_show_out e (git_log_head_out e)))"

definition verify_commit_is_signed :: "env \<Rightarrow> phase" where
  "verify_commit_is_signed e =
     guard [Run Git_log_head, Run (Git_show_signature (git_log_head_out e))]
       (commit_unsigned e)
       [''Error! Commit '' @ git_log_head_out e @ '' is not signed'',
        ''Please follow https://docs.github.com/en/authentication/managing-commit-signature-verification/adding-a-gpg-key-to-your-github-account and sign your commit'']"

subsection \<open>The main sequence\<close>

definition test_ne_1 :: "int option \<Rightarrow> bool" where
  \<comment> \<open>\<^verbatim>\<open>[ "$IS_RELEASE_CANDIDATE" -ne 1 ]\<close>; on text that is no integer the test fails with status 2\<close>
  "test_ne_1 v = (case v of None \<Rightarrow> False | Some n \<Rightarrow> n \<noteq> 1)"

definition test_eq_1 :: "int option \<Rightarrow> bool" where
  \<comment> \<open>\<^verbatim>\<open>[ "$IS_RELEASE_CANDIDATE" -eq 1 ]\<close>\<close>
  "test_eq_1 v = (case v of None \<Rightarrow> False | Some n \<Rightarrow> n = 1)"

definition release_type_of :: "string list \<Rightarrow> string" where
  \<comment> \<open>\<^verbatim>\<open>RELEASE_TYPE=${1:-}\<close>\<close>
  "release_type_of args = (case args of [] \<Rightarrow> [] | a # _ \<Rightarrow> a)"

definition validate_release_type :: "string list \<Rightarrow> env \<Rightarrow> phase" where
  \<comment> \<open>lines 145 to 167\<close>
  "validate_release_type args e =
     (if test_ne_1 (is_release_candidate_out e) then
        if args = [] then
          ([Echo ''Error! Missing release type argument'', Echo ''''] @ echo_help, Some 1)
        else if release_type_of args = ''patch'' \<or> release_type_of args = ''minor''
                \<or> release_type_of args = ''major'' then ([], None)
        else ([Echo ''Error! Invalid release type supplied'', Echo ''''] @ echo_help, Some 1)
      else ([], None))"

definition show_help :: "string list \<Rightarrow> phase" where
  \<comment> \<open>lines 170 to 175\<close>
  "show_help args =
     (if release_type_of args = ''-h'' \<or> release_type_of args = ''--help''
         \<or> release_type_of args = ''help''
      then (echo_help, Some 0) else ([], None))"

definition version_flags :: "string list \<Rightarrow> env \<Rightarrow> string list" where
  \<comment> \<open>lines 206 to 226: the words after \<^verbatim>\<open>yarn version\<close>\<close>
  "version_flags args e =
     (if test_eq_1 (is_release_candidate_out e) then
        if release_type_of args = [] then [''--prerelease'', ''--preid=rc'']
        else [''--pre'' @ release_type_of args, ''--preid=rc'']
      else [''--'' @ release_type_of args])"

definition publish_flags :: "env \<Rightarrow> string list" where
  \<comment> \<open>lines 246 to 250: the words after \<^verbatim>\<open>yarn --ignore-scripts publish\<close>\<close>
  "publish_flags e =
     (if test_eq_1 (is_release_candidate_out e)
      then [''--tag=rc'', ''--non-interactive'', ''--access=public'']
      else [''--non-interactive'', ''--access=public''])"

definition arguments_part :: "string list \<Rightarrow> env \<Rightarrow> phase list" where
  \<comment> \<open>lines 6 to 178\<close>
  "arguments_part args e =
     [exec_cmd Node_is_release_candidate (node_status e),
      validate_release_type args e,
      show_help args,
      exec_cmd Cd_toplevel (cd_status e)]"

definition repository_part :: "env \<Rightarrow> phase list" where
  \<comment> \<open>lines 182 to 200\<close>
  "repository_part e =
     [echo ''Fetching git remotes'',
      exec_cmd Git_fetch (git_fetch_status e),
      exec_cmd Git_status (git_status_status e),
      guard [] (\<not> grep_q (lits ''On branch master'') (git_status_out e))
        [''Error! Must be on master branch to publish''],
      guard [] (\<not> grep_q (lits (''Your branch is up to date with 'origin/master'' @ [CHR 0x27]) @ [Dot])
                   (git_status_out e))
        [''Error! Must be up to date with origin/master to publish''],
      guard [] (\<not> grep_q (lits ''working tree clean'') (git_status_out e))
        [''Error! Cannot publish with dirty working tree'']]"

definition install_part :: "env \<Rightarrow> phase list" where
  \<comment> \<open>lines 202 and 203\<close>
  "install_part e =
     [echo ''Installing dependencies according to lockfile'',
      exec_cmd Yarn_install (yarn_install_status e)]"

definition bump_part :: "string list \<Rightarrow> env \<Rightarrow> phase list" where
  \<comment> \<open>lines 205 to 226\<close>
  "bump_part args e =
     [echo (''Bumping package.json '' @ release_type_of args @ '' version and tagging commit''),
      exec_cmd (Yarn_version (version_flags args e))
        (yarn_version_status e (version_flags args e))]"

definition build_part :: "env \<Rightarrow> phase list" where
  \<comment> \<open>lines 228 to 232\<close>
  "build_part e =
     [echo ''Building'',
      exec_cmd Yarn_run_build (yarn_build_status e),
      echo ''Running tests'',
      exec_cmd Yarn_run_test (yarn_test_status e)]"

definition release_part :: "env \<Rightarrow> phase list" where
  \<comment> \<open>lines 234 to 253\<close>
  "release_part e =
     [verify_commit_is_signed e,
      echo ''Pushing git commit and tag'',
      exec_cmd Git_push (git_push_status e),
      (if test_ne_1 (is_release_candidate_out e) then create_github_release e else ([], None)),
      echo ''Publishing release'',
      exec_cmd (Yarn_publish (publish_flags e)) (yarn_publish_status e (publish_flags e)),
      echo ''Publish successful!'',
      echo '''']"

definition main :: "string list \<Rightarrow> env \<Rightarrow> phase list" where
  "main args e =
     arguments_part args e @ [verify_prerequisites e] @ repository_part e
       @ install_part e @ bump_part args e @ build_part e @ release_part e"

definition publish :: "string list \<Rightarrow> env \<Rightarrow> event list \<times> nat" where
  \<comment> \<open>the trace and the exit code of \<^verbatim>\<open>./scripts/publish ARGS\<close>\<close>
  "publish args e =
     (case run_phases (main args e) of
        (tr, r) \<Rightarrow> (tr, case r of None \<Rightarrow> 0 | Some c \<Rightarrow> c))"

subsection \<open>The states of the specification\<close>

text \<open>
  The state machine of the specification names the steps of a run. Each command of the
  script belongs to one of them; the change of directory of line 178 belongs to none.
  \<open>script_rank\<close> numbers the steps in the order in which the script has them, \<open>spec_rank\<close>
  in the order in which the specification lists them.
\<close>

datatype step =
    ValidatingArgs | CheckingPrerequisites | CheckingRepoState | Installing | Building
  | Testing | Bumping | VerifyingSignature | Pushing | CreatingRelease | Publishing

fun step_of :: "cmd \<Rightarrow> step option" where
  "step_of Node_is_release_candidate = Some ValidatingArgs"
| "step_of Cd_toplevel = None"
| "step_of Npm_whoami = Some CheckingPrerequisites"
| "step_of Yarn_login = Some CheckingPrerequisites"
| "step_of Which_hub = Some CheckingPrerequisites"
| "step_of (Git_config_get k) = Some CheckingPrerequisites"
| "step_of Git_fetch = Some CheckingRepoState"
| "step_of Git_status = Some CheckingRepoState"
| "step_of Yarn_install = Some Installing"
| "step_of (Yarn_version f) = Some Bumping"
| "step_of Yarn_run_build = Some Building"
| "step_of Yarn_run_test = Some Testing"
| "step_of Git_log_head = Some VerifyingSignature"
| "step_of (Git_show_signature h) = Some VerifyingSignature"
| "step_of Git_push = Some Pushing"
| "step_of Which_hub_grep = Some CreatingRelease"
| "step_of Git_tag_list = Some CreatingRelease"
| "step_of (Git_log_range r) = Some CreatingRelease"
| "step_of (Hub_release_create n t) = Some CreatingRelease"
| "step_of (Yarn_publish f) = Some Publishing"

fun steps :: "event list \<Rightarrow> step list" where
  "steps [] = []"
| "steps (Run c # tr) = (case step_of c of None \<Rightarrow> steps tr | Some s \<Rightarrow> s # steps tr)"
| "steps (x # tr) = steps tr"

fun script_rank :: "step \<Rightarrow> nat" where
  "script_rank ValidatingArgs = 0"
| "script_rank CheckingPrerequisites = 1"
| "script_rank CheckingRepoState = 2"
| "script_rank Installing = 3"
| "script_rank Bumping = 4"
| "script_rank Building = 5"
| "script_rank Testing = 6"
| "script_rank VerifyingSignature = 7"
| "script_rank Pushing = 8"
| "script_rank CreatingRelease = 9"
| "script_rank Publishing = 10"


definition ranked :: "nat \<Rightarrow> phase \<Rightarrow> bool" where
  \<comment> \<open>every command of the piece belongs to the step numbered \<open>r\<close>\<close>
  "ranked r p = (\<forall>s\<in>set (steps (fst p)). script_rank s = r)"



subsection \<open>The prerequisite checks, by name\<close>

text \<open>
  The eight checks of \<open>verify_prerequisites\<close> in the words of the specification: for each
  one the commands that its condition runs, the condition under which it fails, and the
  lines it prints then.
\<close>

datatype prerequisite =
    Registry_login | Secondary_registry_login | Release_cli | Token_present
  | Signing_mode | Signing_key_configured | Signing_key_exists | Signing_enabled

definition prerequisites :: "prerequisite list" where
  "prerequisites =
     [Registry_login, Secondary_registry_login, Release_cli, Token_present,
      Signing_mode, Signing_key_configured, Signing_key_exists, Signing_enabled]"

fun prerequisite_events :: "prerequisite \<Rightarrow> event list" where
  "prerequisite_events Registry_login = [Run Npm_whoami]"
| "prerequisite_events Secondary_registry_login = [Run Yarn_login]"
| "prerequisite_events Release_cli = [Run Which_hub]"
| "prerequisite_events Token_present = []"
| "prerequisite_events Signing_mode = [Run (Git_config_get ''gpg.format'')]"
| "prerequisite_events Signing_key_configured = [Run (Git_config_get ''user.signingkey'')]"
| "prerequisite_events Signing_key_exists = [Run (Git_config_get ''user.signingkey'')]"
| "prerequisite_events Signing_enabled = [Run (Git_config_get ''commit.gpgsign'')]"

fun prerequisite_fails :: "env \<Rightarrow> prerequisite \<Rightarrow> bool" where
  "prerequisite_fails e Registry_login = (npm_whoami_status e \<noteq> 0)"
| "prerequisite_fails e Secondary_registry_login = (yarn_login_status e \<noteq> 0)"
| "prerequisite_fails e Release_cli = (which_hub_status e \<noteq> 0)"
| "prerequisite_fails e Token_present = (github_token e = None \<or> github_token e = Some [])"
| "prerequisite_fails e Signing_mode = (git_config_out e ''gpg.format'' \<noteq> ''ssh'')"
| "prerequisite_fails e Signing_key_configured = (git_config_out e ''user.signingkey'' = [])"
| "prerequisite_fails e Signing_key_exists =
     (\<not> file_exists e (git_config_out e ''user.signingkey''))"
| "prerequisite_fails e Signing_enabled = (git_config_out e ''commit.gpgsign'' \<noteq> ''true'')"

fun prerequisite_message :: "env \<Rightarrow> prerequisite \<Rightarrow> string list" where
  "prerequisite_message e Registry_login =
     [''Error! You are not logged in to npm.'', ''Please run 'npm login' and try again.'']"
| "prerequisite_message e Secondary_registry_login =
     [''Error! You are not logged in to yarn.'', ''Please run 'yarn login' and try again.'']"
| "prerequisite_message e Release_cli =
     [''Error! 'hub' command not found.'', ''Please install hub with 'brew install hub'.'']"
| "prerequisite_message e Token_present =
     [''Error! GITHUB_TOKEN environment variable is not set.'']"
| "prerequisite_message e Signing_mode =
     [''Error! Git is not configured to use SSH for commit signing.'',
      ''Please run: git config --global gpg.format ssh'']"
| "prerequisite_message e Signing_key_configured =
     [''Error! Git signing key is not configured.'',
      ''Please run: git config --global user.signingkey ~/.ssh/id_ed25519.pub'']"
| "prerequisite_message e Signing_key_exists =
     [''Error! Git signing key does not exist at: '' @ git_config_out e ''user.signingkey'',
      ''Please set up SSH key for signing as described in the documentation.'']"
| "prerequisite_message e Signing_enabled =
     [''Error! Git commit signing is not enabled.'',
      ''Please run: git config --global commit.gpgsign true'']"

subsection \<open>The version arithmetic of yarn\<close>

text \<open>
  Modelled from the spec: the version arithmetic of the external command
  \<^verbatim>\<open>yarn version\<close>, which the script calls and which is not among the sources. Section 4.1
  of the specification (and the comments of lines 210 to 224 of the script) say what each
  kind of bump does to a version \<^verbatim>\<open>MAJOR.MINOR.PATCH\<close> with an optional suffix \<^verbatim>\<open>-rc.N\<close>.
\<close>

record version =
  v_major :: nat
  v_minor :: nat
  v_patch :: nat
  v_candidate :: "nat option"   \<comment> \<open>the counter \<open>N\<close> of a suffix \<^verbatim>\<open>-rc.N\<close>\<close>

definition yarn_version :: "string list \<Rightarrow> version \<Rightarrow> version option" where
  \<comment> \<open>Modelled from the spec: the new version that \<^verbatim>\<open>yarn version FLAGS\<close> writes (yarn is
      not among the sources). Section 4.1: a prerelease run without release type increments
      the prerelease counter, or starts one at 0 on a version without suffix; a prerelease run
      with release type bumps that component and starts a prerelease at 0; any other run
      bumps the component and strips the suffix. A bump of a component resets the lower
      ones, as in major on 1.2.3 giving 2.0.0. Other flags are no bump: \<open>None\<close>.\<close>
  "yarn_version flags v =
     (if flags = [''--prerelease'', ''--preid=rc''] then
        Some (v \<lparr> v_candidate :=
                 (case v_candidate v of None \<Rightarrow> Some 0 | Some n \<Rightarrow> Some (n + 1)) \<rparr>)
      else if flags = [''--prepatch'', ''--preid=rc''] then
        Some (v \<lparr> v_patch := v_patch v + 1, v_candidate := Some 0 \<rparr>)
      else if flags = [''--preminor'', ''--preid=rc''] then
        Some (v \<lparr> v_minor := v_minor v + 1, v_patch := 0, v_candidate := Some 0 \<rparr>)
      else if flags = [''--premajor'', ''--preid=rc''] then
        Some (v \<lparr> v_major := v_major v + 1, v_minor := 0, v_patch := 0, v_candidate := Some 0 \<rparr>)
      else if flags = [''--patch''] then
        Some (v \<lparr> v_patch := v_patch v + 1, v_candidate := None \<rparr>)
      else if flags = [''--minor''] then
        Some (v \<lparr> v_minor := v_minor v + 1, v_patch := 0, v_candidate := None \<rparr>)
      else if flags = [''--major''] then
        Some (v \<lparr> v_major := v_major v + 1, v_minor := 0, v_patch := 0, v_candidate := None \<rparr>)
      else None)"

text \<open>
  Modelled from the spec: the form of the version strings that \<^verbatim>\<open>yarn version\<close> reads and
  writes, as the examples of section 4.1 show it: decimal numbers separated by dots, then
  the optional suffix \<^verbatim>\<open>-rc.N\<close>.
\<close>

function show_nat :: "nat \<Rightarrow> string" where
  "show_nat n =
     (if n < 10 then [''0123456789'' ! n]
      else show_nat (n div 10) @ [''0123456789'' ! (n mod 10)])"
  by pat_completeness auto
termination
  by (relation "measure id") auto

declare show_nat.simps [simp del]

definition show_version :: "version \<Rightarrow> string" where
  "show_version v =
     show_nat (v_major v) @ ''.'' @ show_nat (v_minor v) @ ''.'' @ show_nat (v_patch v)
     @ (case v_candidate v of None \<Rightarrow> [] | Some n \<Rightarrow> ''-rc.'' @ show_nat n)"

fun position :: "char \<Rightarrow> string \<Rightarrow> nat option" where
  \<comment> \<open>the place of the first occurrence of a character in a text, counted from 0\<close>
  "position c [] = None"
| "position c (d # ds) = (if c = d then Some 0 else map_option Suc (position c ds))"

definition digit_value :: "char \<Rightarrow> nat option" where
  "digit_value c = position c ''0123456789''"

fun read_digits :: "nat \<Rightarrow> string \<Rightarrow> nat option" where
  "read_digits acc [] = Some acc"
| "read_digits acc (c # cs) =
     (case digit_value c of None \<Rightarrow> None | Some d \<Rightarrow> read_digits (10 * acc + d) cs)"

definition read_nat :: "string \<Rightarrow> nat option" where
  "read_nat s = (if s = [] then None else read_digits 0 s)"

fun split_on :: "char \<Rightarrow> string \<Rightarrow> string list" where
  "split_on d [] = [[]]"
| "split_on d (c # cs) =
     (if c = d then [] # split_on d cs
      else (case split_on d cs of [] \<Rightarrow> [[c]] | w # ws \<Rightarrow> (c # w) # ws))"

definition read_candidate :: "string \<Rightarrow> nat option option" where
  \<comment> \<open>the text after the core version: empty, or \<^verbatim>\<open>-rc.N\<close>\<close>
  "read_candidate s =
     (if s = [] then Some None
      else if take 4 s = ''-rc.'' then
        (case read_nat (drop 4 s) of None \<Rightarrow> None | Some n \<Rightarrow> Some (Some n))
      else None)"

definition read_version :: "string \<Rightarrow> version option" where
  "read_version s =
     (case map read_nat (split_on CHR ''.'' (takeWhile (\<lambda>c. c \<noteq> CHR ''-'') s)) of
        [Some a, Some b, Some c] \<Rightarrow>
          (case read_candidate (dropWhile (\<lambda>c. c \<noteq> CHR ''-'') s) of
             None \<Rightarrow> None
           | Some k \<Rightarrow> Some \<lparr> v_major = a, v_minor = b, v_patch = c, v_candidate = k \<rparr>)
      | _ \<Rightarrow> None)"

definition bump_version :: "string list \<Rightarrow> env \<Rightarrow> string \<Rightarrow> string option" where
  \<comment> \<open>the version after lines 205 to 226, from the version before them\<close>
  "bump_version args e s =
     (case read_version s of
        None \<Rightarrow> None
      | Some v \<Rightarrow> map_option show_version (yarn_version (version_flags args e) v))"

subsection \<open>A sample environment\<close>

text \<open>
  A checkout of master, up to date and clean, on a machine where every login, tool and
  setting is in place and every command succeeds. The package is not a release candidate;
  the tags are three releases and one release candidate.
\<close>

definition clean_master_status :: string where
  "clean_master_status =
     ''On branch master'' @ [CHR 0x0A]
     @ ''Your branch is up to date with 'origin/master'.'' @ [CHR 0x0A, CHR 0x0A]
     @ ''nothing to commit, working tree clean''"

definition master_hotfix_status :: string where
  \<comment> \<open>what \<^verbatim>\<open>git status\<close> prints on a clean branch master-hotfix that tracks origin/master\<close>
  "master_hotfix_status =
     ''On branch master-hotfix'' @ [CHR 0x0A]
     @ ''Your branch is up to date with 'origin/master'.'' @ [CHR 0x0A, CHR 0x0A]
     @ ''nothing to commit, working tree clean''"

definition release_env :: env where
  "release_env =
     \<lparr> node_status = 0, is_release_candidate_out = Some 0, cd_status = 0,
       npm_whoami_status = 0, yarn_login_status = 0, which_hub_status = 0,
       github_token = Some ''ghp_token'',
       git_config_out = (\<lambda>k.
          if k = ''gpg.format'' then ''ssh''
          else if k = ''user.signingkey'' then ''/home/dev/.ssh/id_ed25519.pub''
          else if k = ''commit.gpgsign'' then ''true'' else []),
       file_exists = (\<lambda>p. p = ''/home/dev/.ssh/id_ed25519.pub''),
       git_fetch_status = 0, git_status_status = 0,
       git_status_out = clean_master_status,
       yarn_install_status = 0, yarn_version_status = (\<lambda>f. 0),
       yarn_build_status = 0, yarn_test_status = 0,
       git_log_head_out = ''0123abcd'',
       git_show_status = (\<lambda>h. 0), git_show_out = (\<lambda>h. ''G''),
       git_push_status = 0,
       which_hub_grep_status = 0, which_hub_grep_out = ''/usr/local/bin/hub'',
       git_tag_out = [''v1.3.0'', ''v1.3.1'', ''v1.3.2-rc.0'', ''v1.3.2''],
       git_log_subjects = (\<lambda>r. if r = ''v1.3.1..v1.3.2^'' then [''Fix a'', ''Add b''] else []),
       hub_release_status = (\<lambda>n t. 0), yarn_publish_status = (\<lambda>f. 0) \<rparr>"

definition candidate_env :: env where
  \<comment> \<open>the same machine when the package is a release candidate\<close>
  "candidate_env = release_env \<lparr> is_release_candidate_out := Some 1 \<rparr>"

section \<open>Properties\<close>

subsection \<open>Sequencing\<close>

lemma run_phases_append:
  "run_phases (ps @ qs) =
     (case snd (run_phases ps) of
        Some c \<Rightarrow> run_phases ps
      | None \<Rightarrow> (fst (run_phases ps) @ fst (run_phases qs), snd (run_phases qs)))"
  by (induction ps) (auto split: option.splits prod.splits)

lemma run_phases_events:
  "x \<in> set (fst (run_phases ps)) \<Longrightarrow> \<exists>p\<in>set ps. x \<in> set (fst p)"
  by (induction ps) (auto split: option.splits prod.splits)

lemma run_phases_None:
  "snd (run_phases ps) = None \<longleftrightarrow> (\<forall>p\<in>set ps. snd p = None)"
  by (induction ps) (auto split: option.splits prod.splits)


lemma run_phases_all_None:
  "\<forall>p\<in>set ps. snd p = None \<Longrightarrow> run_phases ps = (concat (map fst ps), None)"
  by (induction ps) (auto split: option.splits prod.splits)

lemma run_phases_Cons_None:
  "snd q = None \<Longrightarrow>
     run_phases (q # qs) = (fst q @ fst (run_phases qs), snd (run_phases qs))"
  by (cases "run_phases qs") simp

lemma run_phases_append_Some:
  "snd (run_phases ps) = Some c \<Longrightarrow> run_phases (ps @ qs) = run_phases ps"
  by (simp add: run_phases_append)

lemma run_phases_append_None:
  "snd (run_phases ps) = None \<Longrightarrow>
     run_phases (ps @ qs) = (fst (run_phases ps) @ fst (run_phases qs), snd (run_phases qs))"
  by (simp add: run_phases_append)


lemma run_phases_exec_head: "\<exists>b. fst (run_phases (exec_cmd c st # qs)) = Run c # b"
  by (cases "run_phases qs") (simp add: exec_cmd_def)

lemma fst_publish: "fst (publish args e) = fst (run_phases (main args e))"
  by (cases "run_phases (main args e)") (simp add: publish_def)


lemmas part_defs = arguments_part_def repository_part_def install_part_def bump_part_def
  build_part_def release_part_def

lemmas phase_defs = exec_cmd_def echo_def guard_def validate_release_type_def show_help_def
  release_type_of_def

text \<open>A run that ends inside a front part of the script does nothing of the rest.\<close>

lemma publish_stops:
  assumes "main args e = ps @ qs" and "run_phases ps = (tr, Some c)"
  shows "publish args e = (tr, c)"
  using assms by (simp add: publish_def run_phases_append)

lemma main_arguments:
  "main args e = arguments_part args e
     @ ([verify_prerequisites e] @ repository_part e @ install_part e @ bump_part args e
          @ build_part e @ release_part e)"
  by (simp add: main_def)

subsection \<open>Argument validation and help\<close>

text \<open>
  Claim C9. In a run that is not a prerelease run (the release-candidate script printed an
  integer other than 1), a missing release type and every release type other than patch,
  minor and major make the script print an error line, an empty line and the six lines
  of the usage message, and exit with code 1. Nothing else happens in such a run: the
  trace is the call of the release-candidate script followed by these lines.
\<close>

theorem invalid_release_type_usage:
  assumes "node_status e = 0"
      and "is_release_candidate_out e = Some n" and "n \<noteq> 1"
      and "args = [] \<or> release_type_of args \<notin> {''patch'', ''minor'', ''major''}"
  shows \<open>publish args e =
     (Run Node_is_release_candidate
        # Echo (if args = [] then ''Error! Missing release type argument''
                else ''Error! Invalid release type supplied'')
        # Echo ''''
        # map Echo
           [''USAGE:'',
            ''    ./scripts/publish <release_type>'',
            '''',
            ''ARGS:'',
            ''    <release_type>'',
            ''            A Semantic Versioning release type used to bump the version number. Either "patch", "minor", or "major".''],
      1)\<close>
proof -
  have \<open>run_phases (arguments_part args e) =
     (Run Node_is_release_candidate
        # Echo (if args = [] then ''Error! Missing release type argument''
                else ''Error! Invalid release type supplied'')
        # Echo ''''
        # map Echo
           [''USAGE:'',
            ''    ./scripts/publish <release_type>'',
            '''',
            ''ARGS:'',
            ''    <release_type>'',
            ''            A Semantic Versioning release type used to bump the version number. Either "patch", "minor", or "major".''],
      Some 1)\<close>
    using assms by (auto simp add: arguments_part_def phase_defs test_ne_1_def echo_help_def)
  then show ?thesis by (rule publish_stops [OF main_arguments])
qed

theorem invalid_release_type_usage_witness:
  \<open>node_status release_env = 0
   \<and> is_release_candidate_out release_env = Some 0 \<and> (0::int) \<noteq> 1
   \<and> ([''premajor''] = [] \<or> release_type_of [''premajor''] \<notin> {''patch'', ''minor'', ''major''})
   \<and> publish [''premajor''] release_env =
     ([Run Node_is_release_candidate,
       Echo ''Error! Invalid release type supplied'',
       Echo '''',
       Echo ''USAGE:'',
       Echo ''    ./scripts/publish <release_type>'',
       Echo '''',
       Echo ''ARGS:'',
       Echo ''    <release_type>'',
       Echo ''            A Semantic Versioning release type used to bump the version number. Either "patch", "minor", or "major".''],
      1)
   \<and> publish [] release_env =
     ([Run Node_is_release_candidate,
       Echo ''Error! Missing release type argument'',
       Echo '''',
       Echo ''USAGE:'',
       Echo ''    ./scripts/publish <release_type>'',
       Echo '''',
       Echo ''ARGS:'',
       Echo ''    <release_type>'',
       Echo ''            A Semantic Versioning release type used to bump the version number. Either "patch", "minor", or "major".''],
      1)\<close>
  using invalid_release_type_usage [of release_env 0 "[''premajor'']"]
    invalid_release_type_usage [of release_env 0 "[]"]
  by (simp add: release_env_def release_type_of_def)

text \<open>
  The help tokens are release types other than patch, minor and major, and the validation
  of lines 145 to 167 comes before the help case of lines 170 to 175. So the help case is
  reached only when the validation is skipped, and there it prints the usage message and
  exits with code 0.
\<close>

lemma help_shown_when_validation_skipped:
  assumes "node_status e = 0" and "\<not> test_ne_1 (is_release_candidate_out e)"
      and "a = ''-h'' \<or> a = ''--help'' \<or> a = ''help''"
  shows "publish (a # rest) e = (Run Node_is_release_candidate # echo_help, 0)"
proof -
  have "run_phases (arguments_part (a # rest) e) =
          (Run Node_is_release_candidate # echo_help, Some 0)"
    using assms by (auto simp add: arguments_part_def phase_defs)
  then show ?thesis by (rule publish_stops [OF main_arguments])
qed

text \<open>
  Claim C2. A help token as first argument should print the usage message and exit with
  code 0 in every run. In a run that is not a prerelease run the script answers
  \<^verbatim>\<open>--help\<close> with the error line for an invalid release type, the usage message and exit
  code 1.
\<close>

theorem help_in_release_mode_exits_1:
  "publish [''--help''] release_env =
     ([Run Node_is_release_candidate, Echo ''Error! Invalid release type supplied'', Echo '''']
        @ echo_help, 1)"
proof -
  have "run_phases (arguments_part [''--help''] release_env) =
     ([Run Node_is_release_candidate, Echo ''Error! Invalid release type supplied'', Echo '''']
        @ echo_help, Some 1)"
    by (simp add: arguments_part_def phase_defs release_env_def test_ne_1_def)
  then show ?thesis by (rule publish_stops [OF main_arguments])
qed

subsection \<open>Prerequisite verification\<close>

lemma arguments_part_events:
  "x \<in> set (fst (run_phases (arguments_part args e))) \<Longrightarrow>
     x = Run Node_is_release_candidate \<or> x = Run Cd_toplevel \<or> (\<exists>s. x = Echo s)"
  by (drule run_phases_events)
     (auto simp add: arguments_part_def phase_defs echo_help_def split: if_splits)

lemma prerequisite_events_cases:
  "x \<in> set (prerequisite_events d) \<Longrightarrow>
     x = Run Npm_whoami \<or> x = Run Yarn_login \<or> x = Run Which_hub
     \<or> (\<exists>k. x = Run (Git_config_get k))"
  by (cases d) auto

text \<open>
  The chain of \<^verbatim>\<open>if\<close> blocks of \<open>verify_prerequisites\<close> stops at the first check that
  fails: it has run the commands of the checks before it and of the check itself, prints
  the lines of that check and exits with code 1.
\<close>

lemma first_failing_prerequisite:
  assumes "prerequisite_fails e c"
      and "\<forall>d\<in>set (takeWhile (\<lambda>d. d \<noteq> c) prerequisites). \<not> prerequisite_fails e d"
  shows "verify_prerequisites e =
     (Echo ''Verifying prerequisites...''
        # concat (map prerequisite_events (takeWhile (\<lambda>d. d \<noteq> c) prerequisites))
        @ prerequisite_events c @ map Echo (prerequisite_message e c), Some 1)"
  using assms
  by (cases c)
     (auto simp add: verify_prerequisites_def prerequisites_def guard_def echo_def
           split: option.splits)

lemma publish_stops_in_prerequisites:
  assumes "snd (run_phases (arguments_part args e)) = None"
      and "verify_prerequisites e = (tr, Some c)"
  shows "publish args e = (fst (run_phases (arguments_part args e)) @ tr, c)"
  using assms by (simp add: publish_def main_def run_phases_append split: prod.splits)

text \<open>
  Claim C6, as stated: whenever one of the seven checks fails, the run ends at exactly
  that check with the lines of that check. On the sample machine without \<^verbatim>\<open>hub\<close> and
  without the token, the token check fails, but the run never gets to it: it ends two
  checks earlier, at the check for \<^verbatim>\<open>hub\<close>, with the lines of that check, and the line
  about the token is not printed.
\<close>

theorem hub_check_comes_before_token_check:
  "prerequisite_fails (release_env \<lparr>which_hub_status := 1, github_token := None\<rparr>) Token_present
   \<and> publish [''patch''] (release_env \<lparr>which_hub_status := 1, github_token := None\<rparr>) =
       ([Run Node_is_release_candidate, Run Cd_toplevel,
         Echo ''Verifying prerequisites...'', Run Npm_whoami, Run Yarn_login, Run Which_hub,
         Echo ''Error! 'hub' command not found.'',
         Echo ''Please install hub with 'brew install hub'.''], 1)
   \<and> Echo ''Error! GITHUB_TOKEN environment variable is not set.''
        \<notin> set (fst (publish [''patch'']
                  (release_env \<lparr>which_hub_status := 1, github_token := None\<rparr>)))"
proof -
  let ?e = "release_env \<lparr>which_hub_status := 1, github_token := None\<rparr>"
  have "run_phases (arguments_part [''patch''] ?e @ [verify_prerequisites ?e]) =
     ([Run Node_is_release_candidate, Run Cd_toplevel,
       Echo ''Verifying prerequisites...'', Run Npm_whoami, Run Yarn_login, Run Which_hub,
       Echo ''Error! 'hub' command not found.'',
       Echo ''Please install hub with 'brew install hub'.''], Some 1)"
    by (simp add: arguments_part_def verify_prerequisites_def phase_defs release_env_def
          test_ne_1_def)
  then have "publish [''patch''] ?e =
       ([Run Node_is_release_candidate, Run Cd_toplevel,
         Echo ''Verifying prerequisites...'', Run Npm_whoami, Run Yarn_login, Run Which_hub,
         Echo ''Error! 'hub' command not found.'',
         Echo ''Please install hub with 'brew install hub'.''], 1)"
    by (rule publish_stops [rotated]) (simp add: main_def)
  then show ?thesis by simp
qed

text \<open>
  Claim C6, amended. Take a run that gets to the prerequisite verification (the
  release-candidate script, the argument validation and the change of directory went
  through) and a check among registry login, secondary-registry login, token presence,
  signing mode, signing-key configuration, signing-key existence and signing enabled that
  fails while every check before it in the script, the check for \<^verbatim>\<open>hub\<close> included, passes.
  Then the run ends at that check: after the commands of the checks up to it, it prints
  the lines of that check and exits with code 1. The trace holds no install, build, test,
  version bump, push or publish.
\<close>

theorem failing_prerequisite_aborts:
  assumes "snd (run_phases (arguments_part args e)) = None"
      and "c \<noteq> Release_cli"
      and "prerequisite_fails e c"
      and "\<forall>d\<in>set (takeWhile (\<lambda>d. d \<noteq> c) prerequisites). \<not> prerequisite_fails e d"
  shows "publish args e =
       (fst (run_phases (arguments_part args e))
          @ Echo ''Verifying prerequisites...''
          # concat (map prerequisite_events (takeWhile (\<lambda>d. d \<noteq> c) prerequisites))
          @ prerequisite_events c @ map Echo (prerequisite_message e c), 1)
     \<and> Run Yarn_install \<notin> set (fst (publish args e))
     \<and> Run Yarn_run_build \<notin> set (fst (publish args e))
     \<and> Run Yarn_run_test \<notin> set (fst (publish args e))
     \<and> Run Git_push \<notin> set (fst (publish args e))
     \<and> (\<forall>f. Run (Yarn_version f) \<notin> set (fst (publish args e))
            \<and> Run (Yarn_publish f) \<notin> set (fst (publish args e)))"
proof -
  have eq: "publish args e =
       (fst (run_phases (arguments_part args e))
          @ Echo ''Verifying prerequisites...''
          # concat (map prerequisite_events (takeWhile (\<lambda>d. d \<noteq> c) prerequisites))
          @ prerequisite_events c @ map Echo (prerequisite_message e c), 1)"
    using publish_stops_in_prerequisites [OF assms(1) first_failing_prerequisite [OF assms(3,4)]] .
  have "\<exists>s k. x = Run Node_is_release_candidate \<or> x = Run Cd_toplevel \<or> x = Echo s
          \<or> x = Run Npm_whoami \<or> x = Run Yarn_login \<or> x = Run Which_hub
          \<or> x = Run (Git_config_get k)"
    if "x \<in> set (fst (publish args e))" for x
    using that unfolding eq
    by (auto dest!: arguments_part_events prerequisite_events_cases)
  then have none: "x \<in> set (fst (publish args e)) \<Longrightarrow>
      x \<noteq> Run Yarn_install \<and> x \<noteq> Run Yarn_run_build \<and> x \<noteq> Run Yarn_run_test
      \<and> x \<noteq> Run Git_push \<and> (\<forall>f. x \<noteq> Run (Yarn_version f) \<and> x \<noteq> Run (Yarn_publish f))" for x
    by fastforce
  show ?thesis using eq none by blast
qed

theorem failing_prerequisite_aborts_witness:
  "snd (run_phases (arguments_part [''patch''] (release_env \<lparr>github_token := None\<rparr>))) = None
   \<and> Token_present \<noteq> Release_cli
   \<and> prerequisite_fails (release_env \<lparr>github_token := None\<rparr>) Token_present
   \<and> publish [''patch''] (release_env \<lparr>github_token := None\<rparr>) =
       ([Run Node_is_release_candidate, Run Cd_toplevel,
         Echo ''Verifying prerequisites...'', Run Npm_whoami, Run Yarn_login, Run Which_hub,
         Echo ''Error! GITHUB_TOKEN environment variable is not set.''], 1)
   \<and> Run Yarn_install \<notin> set (fst (publish [''patch''] (release_env \<lparr>github_token := None\<rparr>)))
   \<and> Run Git_push \<notin> set (fst (publish [''patch''] (release_env \<lparr>github_token := None\<rparr>)))"
proof -
  let ?e = "release_env \<lparr>github_token := None\<rparr>"
  have a: "snd (run_phases (arguments_part [''patch''] ?e)) = None"
    by (simp add: arguments_part_def phase_defs release_env_def test_ne_1_def)
  have b: "fst (run_phases (arguments_part [''patch''] ?e))
             = [Run Node_is_release_candidate, Run Cd_toplevel]"
    by (simp add: arguments_part_def phase_defs release_env_def test_ne_1_def)
  have f: "prerequisite_fails ?e Token_present" by simp
  have g: "\<forall>d\<in>set (takeWhile (\<lambda>d. d \<noteq> Token_present) prerequisites). \<not> prerequisite_fails ?e d"
    by (simp add: prerequisites_def release_env_def)
  show ?thesis
    using failing_prerequisite_aborts [OF a _ f g] a b f
    by (simp add: prerequisites_def)
qed

text \<open>
  Claim C3, as stated: a missing \<^verbatim>\<open>hub\<close> does not abort the run during the prerequisite
  verification. It does: on the sample machine without \<^verbatim>\<open>hub\<close> the run ends at the check
  of lines 37 to 42 with exit code 1, and the release-note step is never reached.
\<close>

theorem hub_absent_run:
  "publish [''patch''] (release_env \<lparr>which_hub_status := 1\<rparr>) =
     ([Run Node_is_release_candidate, Run Cd_toplevel,
       Echo ''Verifying prerequisites...'', Run Npm_whoami, Run Yarn_login, Run Which_hub,
       Echo ''Error! 'hub' command not found.'',
       Echo ''Please install hub with 'brew install hub'.''], 1)"
proof -
  let ?e = "release_env \<lparr>which_hub_status := 1\<rparr>"
  have "run_phases (arguments_part [''patch''] ?e @ [verify_prerequisites ?e]) =
     ([Run Node_is_release_candidate, Run Cd_toplevel,
       Echo ''Verifying prerequisites...'', Run Npm_whoami, Run Yarn_login, Run Which_hub,
       Echo ''Error! 'hub' command not found.'',
       Echo ''Please install hub with 'brew install hub'.''], Some 1)"
    by (simp add: arguments_part_def verify_prerequisites_def phase_defs release_env_def
          test_ne_1_def)
  then show ?thesis by (rule publish_stops [rotated]) (simp add: main_def)
qed

text \<open>
  Claim C3, amended. The check for \<^verbatim>\<open>hub\<close> is a hard gate like the others: in a run that
  gets to the prerequisite verification with both logins in place, a missing \<^verbatim>\<open>hub\<close> makes
  the script print that the command was not found and how to install it, and exit with
  code 1.
\<close>

theorem hub_absent_aborts:
  assumes "snd (run_phases (arguments_part args e)) = None"
      and "npm_whoami_status e = 0" and "yarn_login_status e = 0"
      and "which_hub_status e \<noteq> 0"
  shows "publish args e =
       (fst (run_phases (arguments_part args e))
          @ [Echo ''Verifying prerequisites...'', Run Npm_whoami, Run Yarn_login, Run Which_hub,
             Echo ''Error! 'hub' command not found.'',
             Echo ''Please install hub with 'brew install hub'.''], 1)"
proof -
  have "prerequisite_fails e Release_cli" using assms by simp
  moreover have "\<forall>d\<in>set (takeWhile (\<lambda>d. d \<noteq> Release_cli) prerequisites). \<not> prerequisite_fails e d"
    using assms by (simp add: prerequisites_def)
  ultimately show ?thesis
    using publish_stops_in_prerequisites [OF assms(1) first_failing_prerequisite, of Release_cli]
    by (simp add: prerequisites_def)
qed

theorem hub_absent_aborts_witness:
  "snd (run_phases (arguments_part [''patch''] (release_env \<lparr>which_hub_status := 127\<rparr>))) = None
   \<and> npm_whoami_status (release_env \<lparr>which_hub_status := 127\<rparr>) = 0
   \<and> yarn_login_status (release_env \<lparr>which_hub_status := 127\<rparr>) = 0
   \<and> which_hub_status (release_env \<lparr>which_hub_status := 127\<rparr>) \<noteq> 0
   \<and> publish [''patch''] (release_env \<lparr>which_hub_status := 127\<rparr>) =
       ([Run Node_is_release_candidate, Run Cd_toplevel,
         Echo ''Verifying prerequisites...'', Run Npm_whoami, Run Yarn_login, Run Which_hub,
         Echo ''Error! 'hub' command not found.'',
         Echo ''Please install hub with 'brew install hub'.''], 1)"
proof -
  let ?e = "release_env \<lparr>which_hub_status := 127\<rparr>"
  have a: "snd (run_phases (arguments_part [''patch''] ?e)) = None"
    by (simp add: arguments_part_def phase_defs release_env_def test_ne_1_def)
  have b: "fst (run_phases (arguments_part [''patch''] ?e))
             = [Run Node_is_release_candidate, Run Cd_toplevel]"
    by (simp add: arguments_part_def phase_defs release_env_def test_ne_1_def)
  have c: "npm_whoami_status ?e = 0" "yarn_login_status ?e = 0" "which_hub_status ?e \<noteq> 0"
    by (simp_all add: release_env_def)
  show ?thesis using hub_absent_aborts [OF a c] a b c by simp
qed

subsection \<open>Release notes\<close>

lemmas run_defs = publish_def main_def part_defs phase_defs test_ne_1_def test_eq_1_def
  verify_prerequisites_def verify_commit_is_signed_def commit_unsigned_def
  version_flags_def publish_flags_def lits_def create_github_release_def hub_not_found_def
  qualifying_tags_def tail_2_def Let_def

lemmas env_defs = release_env_def candidate_env_def clean_master_status_def

lemma tail_2_short: "length xs < 2 \<Longrightarrow> length (tail_2 xs) \<noteq> 2"
  by (simp add: tail_2_def)

lemma tail_2_pair:
  assumes "2 \<le> length xs"
  shows "\<exists>a b. tail_2 xs = [a, b]"
proof -
  have "length (tail_2 xs) = 2" using assms by (simp add: tail_2_def)
  then show ?thesis
    by (cases "tail_2 xs"; cases "tl (tail_2 xs)"; cases "tl (tl (tail_2 xs))") auto
qed

text \<open>Every line of a joined text stands in it between two newline characters.\<close>

lemma join_lines_line:
  "l \<in> set ls \<Longrightarrow>
     \<exists>a b. CHR 0x0A # join_lines ls @ [CHR 0x0A] = a @ CHR 0x0A # l @ CHR 0x0A # b"
proof (induction ls rule: join_lines.induct)
  case 1
  then show ?case by simp
next
  case (2 k)
  then have "CHR 0x0A # join_lines [k] @ [CHR 0x0A] = [] @ CHR 0x0A # l @ CHR 0x0A # []"
    by simp
  then show ?case by blast
next
  case (3 k m ls)
  show ?case
  proof (cases "l = k")
    case True
    have "CHR 0x0A # join_lines (k # m # ls) @ [CHR 0x0A]
            = [] @ CHR 0x0A # l @ CHR 0x0A # (join_lines (m # ls) @ [CHR 0x0A])"
      using True by simp
    then show ?thesis by blast
  next
    case False
    then have "l \<in> set (m # ls)" using 3 by simp
    then obtain a b where
      "CHR 0x0A # join_lines (m # ls) @ [CHR 0x0A] = a @ CHR 0x0A # l @ CHR 0x0A # b"
      using 3 by blast
    then have "CHR 0x0A # join_lines (k # m # ls) @ [CHR 0x0A]
            = (CHR 0x0A # k @ a) @ CHR 0x0A # l @ CHR 0x0A # b"
      by simp
    then show ?thesis by blast
  qed
qed

lemma release_notes_split:
  "release_notes v t =
     (v @ [CHR 0x0A, CHR 0x0A]
        @ ''<!-- Please group the following commits into one of the sections below. -->''
        @ [CHR 0x0A] @ ''<!-- Remove empty sections when done. -->'' @ [CHR 0x0A])
     @ (CHR 0x0A # t @ [CHR 0x0A])
     @ (CHR 0x0A # ''### New features'' @ [CHR 0x0A, CHR 0x0A] @ ''### Fixes''
          @ [CHR 0x0A, CHR 0x0A] @ ''### Changed'')"
  by (simp add: release_notes_def)

lemma release_notes_line:
  assumes "l \<in> set ls"
  shows "\<exists>a b. release_notes v (join_lines ls) = a @ CHR 0x0A # l @ CHR 0x0A # b"
proof -
  obtain a b where ab: "CHR 0x0A # join_lines ls @ [CHR 0x0A] = a @ CHR 0x0A # l @ CHR 0x0A # b"
    using join_lines_line [OF assms] by blast
  have "\<exists>a' b'. x @ (a @ CHR 0x0A # l @ CHR 0x0A # b) @ y = a' @ CHR 0x0A # l @ CHR 0x0A # b'"
    for x y :: string
  proof -
    have "x @ (a @ CHR 0x0A # l @ CHR 0x0A # b) @ y = (x @ a) @ CHR 0x0A # l @ CHR 0x0A # (b @ y)"
      by simp
    then show ?thesis by blast
  qed
  then show ?thesis unfolding release_notes_split ab .
qed

lemma create_github_release_fallback_cases:
  assumes "length (qualifying_tags (git_tag_out e)) < 2 \<or> hub_not_found e"
  shows "create_github_release e = (Run Which_hub_grep # create_github_release_fallback, None)
     \<or> create_github_release e =
          (Run Which_hub_grep # Run Git_tag_list # create_github_release_fallback, None)"
proof (cases "hub_not_found e")
  case True
  then show ?thesis by (simp add: create_github_release_def)
next
  case False
  then have "length (tail_2 (qualifying_tags (git_tag_out e))) \<noteq> 2"
    using assms tail_2_short by blast
  then show ?thesis using False by (simp add: create_github_release_def Let_def)
qed

lemma create_github_release_notes:
  assumes "\<not> hub_not_found e"
      and "tail_2 (qualifying_tags (git_tag_out e)) = [p, c]"
      and "r = p @ ''..'' @ c @ ''^''"
      and "n = release_notes c (join_lines (map (\<lambda>s. ''- '' @ s) (git_log_subjects e r)))"
  shows "create_github_release e =
            ([Run Which_hub_grep, Run Git_tag_list, Run (Git_log_range r),
              Echo ''Creating GitHub release'', Echo '''', Echo_n ''    '',
              Run (Hub_release_create n c)],
             if hub_release_status e n c = 0 then None else Some (hub_release_status e n c))"
  unfolding assms(3,4) using assms(1,2) by (simp add: create_github_release_def Let_def)

text \<open>
  Claim C4, as stated: with more than two version tags that are no release candidates the
  fallback message is printed, and the step never makes the run exit with a non-zero code.
  The sample machine has three such tags (v1.3.0, v1.3.1, v1.3.2). The script takes the
  last two, writes the notes for v1.3.1..v1.3.2 and calls \<^verbatim>\<open>hub release create\<close>; the
  fallback is not printed. When that call fails with status 1, the run exits with code 1.
\<close>

theorem three_tags_release:
  "length (qualifying_tags (git_tag_out (release_env \<lparr>hub_release_status := (\<lambda>n t. 1)\<rparr>))) = 3
   \<and> create_github_release (release_env \<lparr>hub_release_status := (\<lambda>n t. 1)\<rparr>) =
       ([Run Which_hub_grep, Run Git_tag_list, Run (Git_log_range ''v1.3.1..v1.3.2^''),
         Echo ''Creating GitHub release'', Echo '''', Echo_n ''    '',
         Run (Hub_release_create
                (release_notes ''v1.3.2'' (''- Fix a'' @ [CHR 0x0A] @ ''- Add b'')) ''v1.3.2'')],
        Some 1)
   \<and> snd (publish [''patch''] (release_env \<lparr>hub_release_status := (\<lambda>n t. 1)\<rparr>)) = 1"
proof (intro conjI)
  let ?e = "release_env \<lparr>hub_release_status := (\<lambda>n t. 1)\<rparr>"
  show "length (qualifying_tags (git_tag_out ?e)) = 3"
    by (simp add: qualifying_tags_def lits_def release_env_def)
  show "create_github_release ?e =
       ([Run Which_hub_grep, Run Git_tag_list, Run (Git_log_range ''v1.3.1..v1.3.2^''),
         Echo ''Creating GitHub release'', Echo '''', Echo_n ''    '',
         Run (Hub_release_create
                (release_notes ''v1.3.2'' (''- Fix a'' @ [CHR 0x0A] @ ''- Add b'')) ''v1.3.2'')],
        Some 1)"
    by (simp add: create_github_release_def hub_not_found_def qualifying_tags_def tail_2_def
          lits_def release_env_def Let_def)
  show "snd (publish [''patch''] ?e) = 1"
    by (simp add: run_defs env_defs)
qed

lemma release_notes_or_fallback_aux:
  "(length (qualifying_tags (git_tag_out e)) < 2 \<or> hub_not_found e \<longrightarrow>
      snd (create_github_release e) = None
      \<and> (\<exists>pre. fst (create_github_release e) = pre @ create_github_release_fallback)
      \<and> (\<forall>n t. Run (Hub_release_create n t) \<notin> set (fst (create_github_release e))))
   \<and> (2 \<le> length (qualifying_tags (git_tag_out e)) \<and> \<not> hub_not_found e \<longrightarrow>
      (\<exists>previous current notes.
          tail_2 (qualifying_tags (git_tag_out e)) = [previous, current]
        \<and> create_github_release e =
            ([Run Which_hub_grep, Run Git_tag_list,
              Run (Git_log_range (previous @ ''..'' @ current @ ''^'')),
              Echo ''Creating GitHub release'', Echo '''', Echo_n ''    '',
              Run (Hub_release_create notes current)],
             if hub_release_status e notes current = 0 then None
             else Some (hub_release_status e notes current))
        \<and> (\<forall>s\<in>set (git_log_subjects e (previous @ ''..'' @ current @ ''^'')).
              \<exists>a b. notes = a @ CHR 0x0A # ''- '' @ s @ CHR 0x0A # b)))"
proof (intro conjI impI)
  assume h: "length (qualifying_tags (git_tag_out e)) < 2 \<or> hub_not_found e"
  note r = create_github_release_fallback_cases [OF h]
  show "snd (create_github_release e) = None" using r by auto
  have "fst (create_github_release e) = [Run Which_hub_grep] @ create_github_release_fallback
     \<or> fst (create_github_release e)
          = [Run Which_hub_grep, Run Git_tag_list] @ create_github_release_fallback"
    using r by auto
  then show "\<exists>pre. fst (create_github_release e) = pre @ create_github_release_fallback"
    by blast
  show "\<forall>n t. Run (Hub_release_create n t) \<notin> set (fst (create_github_release e))"
    using r by (auto simp add: create_github_release_fallback_def)
next
  assume h: "2 \<le> length (qualifying_tags (git_tag_out e)) \<and> \<not> hub_not_found e"
  obtain p c where t: "tail_2 (qualifying_tags (git_tag_out e)) = [p, c]"
    using h tail_2_pair by blast
  define r where "r = p @ ''..'' @ c @ ''^''"
  define n where "n = release_notes c (join_lines (map (\<lambda>s. ''- '' @ s) (git_log_subjects e r)))"
  have c: "create_github_release e =
            ([Run Which_hub_grep, Run Git_tag_list, Run (Git_log_range r),
              Echo ''Creating GitHub release'', Echo '''', Echo_n ''    '',
              Run (Hub_release_create n c)],
             if hub_release_status e n c = 0 then None else Some (hub_release_status e n c))"
    using create_github_release_notes [OF _ t r_def n_def] h by blast
  have l: "\<forall>s\<in>set (git_log_subjects e r). \<exists>a b. n = a @ CHR 0x0A # ''- '' @ s @ CHR 0x0A # b"
  proof
    fix s assume "s \<in> set (git_log_subjects e r)"
    then have "''- '' @ s \<in> (\<lambda>s. ''- '' @ s) ` set (git_log_subjects e r)"
      by (rule imageI)
    then have "''- '' @ s \<in> set (map (\<lambda>s. ''- '' @ s) (git_log_subjects e r))"
      by (simp only: set_map)
    from release_notes_line [OF this, of c]
    show "\<exists>a b. n = a @ CHR 0x0A # ''- '' @ s @ CHR 0x0A # b"
      unfolding n_def by (simp only: append_assoc)
  qed
  have "tail_2 (qualifying_tags (git_tag_out e)) = [p, c]
        \<and> create_github_release e =
            ([Run Which_hub_grep, Run Git_tag_list, Run (Git_log_range r),
              Echo ''Creating GitHub release'', Echo '''', Echo_n ''    '',
              Run (Hub_release_create n c)],
             if hub_release_status e n c = 0 then None else Some (hub_release_status e n c))
        \<and> (\<forall>s\<in>set (git_log_subjects e r).
              \<exists>a b. n = a @ CHR 0x0A # ''- '' @ s @ CHR 0x0A # b)"
    using t c l by (intro conjI)
  then show "\<exists>previous current notes.
          tail_2 (qualifying_tags (git_tag_out e)) = [previous, current]
        \<and> create_github_release e =
            ([Run Which_hub_grep, Run Git_tag_list,
              Run (Git_log_range (previous @ ''..'' @ current @ ''^'')),
              Echo ''Creating GitHub release'', Echo '''', Echo_n ''    '',
              Run (Hub_release_create notes current)],
             if hub_release_status e notes current = 0 then None
             else Some (hub_release_status e notes current))
        \<and> (\<forall>s\<in>set (git_log_subjects e (previous @ ''..'' @ current @ ''^'')).
              \<exists>a b. notes = a @ CHR 0x0A # ''- '' @ s @ CHR 0x0A # b)"
    unfolding r_def by (intro exI)
qed

text \<open>
  Claim C4, amended. When fewer than two version tags that are no release candidates
  exist, or when the search \<^verbatim>\<open>which hub\<close> of line 83 succeeds and its output holds
  "not found", the step prints the four lines of the manual-instructions message, calls no
  \<^verbatim>\<open>hub release create\<close> and lets the run go on. When at least two such tags exist and the
  search does not do so, the step takes the last two in version order, \<open>previous\<close> and
  \<open>current\<close>, and calls \<^verbatim>\<open>hub release create\<close> for \<open>current\<close> with notes in which every commit
  subject of the range \<^verbatim>\<open>previous..current^\<close> is a line \<^verbatim>\<open>- SUBJECT\<close>; the run goes on when
  that call succeeds and exits with the status of the call when it fails.
\<close>

theorem release_notes_or_fallback:
  "(length (qualifying_tags (git_tag_out e)) < 2
      \<or> (which_hub_grep_status e = 0 \<and> grep_q (lits ''not found'') (which_hub_grep_out e)) \<longrightarrow>
      snd (create_github_release e) = None
      \<and> (\<exists>pre. fst (create_github_release e) = pre @ map Echo
            [''Remember to create a release on GitHub with a changelog notes:'',
             '''',
             ''    https://github.com/stripe/stripe-js/releases/new'',
             ''''])
      \<and> (\<forall>n t. Run (Hub_release_create n t) \<notin> set (fst (create_github_release e))))
   \<and> (2 \<le> length (qualifying_tags (git_tag_out e))
      \<and> \<not> (which_hub_grep_status e = 0 \<and> grep_q (lits ''not found'') (which_hub_grep_out e)) \<longrightarrow>
      (\<exists>previous current notes.
          tail_2 (qualifying_tags (git_tag_out e)) = [previous, current]
        \<and> create_github_release e =
            ([Run Which_hub_grep, Run Git_tag_list,
              Run (Git_log_range (previous @ ''..'' @ current @ ''^'')),
              Echo ''Creating GitHub release'', Echo '''', Echo_n ''    '',
              Run (Hub_release_create notes current)],
             if hub_release_status e notes current = 0 then None
             else Some (hub_release_status e notes current))
        \<and> (\<forall>s\<in>set (git_log_subjects e (previous @ ''..'' @ current @ ''^'')).
              \<exists>a b. notes = a @ CHR 0x0A # ''- '' @ s @ CHR 0x0A # b)))"
  using release_notes_or_fallback_aux [of e]
  unfolding create_github_release_fallback_def hub_not_found_def .

theorem release_notes_or_fallback_witness:
  "2 \<le> length (qualifying_tags (git_tag_out release_env))
   \<and> \<not> (which_hub_grep_status release_env = 0
          \<and> grep_q (lits ''not found'') (which_hub_grep_out release_env))
   \<and> tail_2 (qualifying_tags (git_tag_out release_env)) = [''v1.3.1'', ''v1.3.2'']
   \<and> ''Fix a'' \<in> set (git_log_subjects release_env ''v1.3.1..v1.3.2^'')
   \<and> (\<exists>notes a b.
         create_github_release release_env =
            ([Run Which_hub_grep, Run Git_tag_list, Run (Git_log_range ''v1.3.1..v1.3.2^''),
              Echo ''Creating GitHub release'', Echo '''', Echo_n ''    '',
              Run (Hub_release_create notes ''v1.3.2'')], None)
         \<and> notes = a @ CHR 0x0A # ''- Fix a'' @ CHR 0x0A # b)
   \<and> length (qualifying_tags (git_tag_out (release_env \<lparr>git_tag_out := [''v1.3.2'']\<rparr>))) < 2
   \<and> snd (create_github_release (release_env \<lparr>git_tag_out := [''v1.3.2'']\<rparr>)) = None
   \<and> (\<exists>pre. fst (create_github_release (release_env \<lparr>git_tag_out := [''v1.3.2'']\<rparr>)) =
         pre @ [Echo ''Remember to create a release on GitHub with a changelog notes:'',
                Echo '''',
                Echo ''    https://github.com/stripe/stripe-js/releases/new'',
                Echo ''''])"
proof -
  have q: "qualifying_tags (git_tag_out release_env) = [''v1.3.0'', ''v1.3.1'', ''v1.3.2'']"
    by (simp add: qualifying_tags_def lits_def release_env_def)
  have h: "2 \<le> length (qualifying_tags (git_tag_out release_env))
      \<and> \<not> (which_hub_grep_status release_env = 0
          \<and> grep_q (lits ''not found'') (which_hub_grep_out release_env))"
    unfolding q by (simp add: lits_def release_env_def)
  have t: "tail_2 (qualifying_tags (git_tag_out release_env)) = [''v1.3.1'', ''v1.3.2'']"
    unfolding q by (simp add: tail_2_def)
  have s: "''Fix a'' \<in> set (git_log_subjects release_env ''v1.3.1..v1.3.2^'')"
    by (simp add: release_env_def)
  have st: "hub_release_status release_env n t = 0" for n t
    by (simp add: release_env_def)
  obtain previous current msg where w:
    "tail_2 (qualifying_tags (git_tag_out release_env)) = [previous, current]"
    "create_github_release release_env =
            ([Run Which_hub_grep, Run Git_tag_list,
              Run (Git_log_range (previous @ ''..'' @ current @ ''^'')),
              Echo ''Creating GitHub release'', Echo '''', Echo_n ''    '',
              Run (Hub_release_create msg current)],
             if hub_release_status release_env msg current = 0 then None
             else Some (hub_release_status release_env msg current))"
    "\<forall>s\<in>set (git_log_subjects release_env (previous @ ''..'' @ current @ ''^'')).
              \<exists>a b. msg = a @ CHR 0x0A # ''- '' @ s @ CHR 0x0A # b"
    using release_notes_or_fallback [of release_env, THEN conjunct2] h by blast
  have pc: "previous = ''v1.3.1''" "current = ''v1.3.2''"
    using w(1) t by simp_all
  have "\<exists>a b. msg = a @ CHR 0x0A # ''- '' @ ''Fix a'' @ CHR 0x0A # b"
  proof -
    have "''Fix a'' \<in> set (git_log_subjects release_env (''v1.3.1'' @ ''..'' @ ''v1.3.2'' @ ''^''))"
      using s by simp
    from bspec [OF w(3) [unfolded pc] this] show ?thesis .
  qed
  then obtain a b where n: "msg = a @ CHR 0x0A # ''- Fix a'' @ CHR 0x0A # b"
    by auto
  have c: "create_github_release release_env =
            ([Run Which_hub_grep, Run Git_tag_list, Run (Git_log_range ''v1.3.1..v1.3.2^''),
              Echo ''Creating GitHub release'', Echo '''', Echo_n ''    '',
              Run (Hub_release_create msg ''v1.3.2'')], None)"
    using w(2) unfolding pc st by simp
  have e: "\<exists>notes a b.
         create_github_release release_env =
            ([Run Which_hub_grep, Run Git_tag_list, Run (Git_log_range ''v1.3.1..v1.3.2^''),
              Echo ''Creating GitHub release'', Echo '''', Echo_n ''    '',
              Run (Hub_release_create notes ''v1.3.2'')], None)
         \<and> notes = a @ CHR 0x0A # ''- Fix a'' @ CHR 0x0A # b"
    using c n by (intro exI [of _ msg] exI [of _ a] exI [of _ b] conjI)
  let ?e = "release_env \<lparr>git_tag_out := [''v1.3.2'']\<rparr>"
  have f: "length (qualifying_tags (git_tag_out ?e)) < 2"
    by (simp add: qualifying_tags_def lits_def)
  have g: "snd (create_github_release ?e) = None
     \<and> (\<exists>pre. fst (create_github_release ?e) = pre @ map Echo
            [''Remember to create a release on GitHub with a changelog notes:'',
             '''',
             ''    https://github.com/stripe/stripe-js/releases/new'',
             ''''])"
    using release_notes_or_fallback [of ?e, THEN conjunct1] f by blast
  then have g': "\<exists>pre. fst (create_github_release ?e) =
         pre @ [Echo ''Remember to create a release on GitHub with a changelog notes:'',
                Echo '''',
                Echo ''    https://github.com/stripe/stripe-js/releases/new'',
                Echo '''']"
    by simp
  show ?thesis
    using conjunct1 [OF h] conjunct2 [OF h] t s e f conjunct1 [OF g] g' by (intro conjI)
qed

subsection \<open>The order of the steps\<close>

lemma steps_append: "steps (a @ b) = steps a @ steps b"
  by (induction a rule: steps.induct) (auto split: option.splits)

lemma steps_Echo: "steps (map Echo ls) = []"
  by (induction ls) auto

lemma in_steps: "s \<in> set (steps tr) \<longleftrightarrow> (\<exists>c. Run c \<in> set tr \<and> step_of c = Some s)"
  by (induction tr rule: steps.induct) (auto split: option.splits)

lemma run_phases_ranks:
  assumes "list_all2 ranked rs ps"
  shows "\<forall>s\<in>set (steps (fst (run_phases ps))). script_rank s \<in> set rs"
  using assms
  by (induction rs ps rule: list_all2_induct)
     (auto simp add: ranked_def steps_append split: option.splits prod.splits)


lemma ranked_exec [simp]:
  "ranked r (exec_cmd c st) \<longleftrightarrow> (case step_of c of None \<Rightarrow> True | Some s \<Rightarrow> script_rank s = r)"
  by (simp add: ranked_def exec_cmd_def split: option.splits)

lemma ranked_echo [simp]: "ranked r (echo s)"
  by (simp add: ranked_def echo_def)

lemma ranked_guard [simp]:
  "ranked r (guard evs failed msgs) \<longleftrightarrow> (\<forall>s\<in>set (steps evs). script_rank s = r)"
  by (simp add: ranked_def guard_def steps_append steps_Echo)

lemma steps_echo_help: "steps echo_help = []"
  by (simp add: echo_help_def)

lemma ranked_validate [simp]: "ranked r (validate_release_type args e)"
  by (simp add: ranked_def validate_release_type_def steps_echo_help)

lemma ranked_show_help [simp]: "ranked r (show_help args)"
  by (simp add: ranked_def show_help_def steps_echo_help)

lemma ranked_verify_prerequisites [simp]: "ranked 1 (verify_prerequisites e)"
proof -
  have "list_all2 ranked (replicate 10 1)
     [echo ''Verifying prerequisites...'',
      guard [Run Npm_whoami] (npm_whoami_status e \<noteq> 0)
        [''Error! You are not logged in to npm.'',
         ''Please run 'npm login' and try again.''],
      guard [Run Yarn_login] (yarn_login_status e \<noteq> 0)
        [''Error! You are not logged in to yarn.'',
         ''Please run 'yarn login' and try again.''],
      guard [Run Which_hub] (which_hub_status e \<noteq> 0)
        [''Error! 'hub' command not found.'',
         ''Please install hub with 'brew install hub'.''],
      guard [] (case github_token e of None \<Rightarrow> True | Some t \<Rightarrow> t = [])
        [''Error! GITHUB_TOKEN environment variable is not set.''],
      guard [Run (Git_config_get ''gpg.format'')] (git_config_out e ''gpg.format'' \<noteq> ''ssh'')
        [''Error! Git is not configured to use SSH for commit signing.'',
         ''Please run: git config --global gpg.format ssh''],
      guard [Run (Git_config_get ''user.signingkey'')] (git_config_out e ''user.signingkey'' = [])
        [''Error! Git signing key is not configured.'',
         ''Please run: git config --global user.signingkey ~/.ssh/id_ed25519.pub''],
      guard [Run (Git_config_get ''user.signingkey'')]
        (\<not> file_exists e (git_config_out e ''user.signingkey''))
        [''Error! Git signing key does not exist at: '' @ git_config_out e ''user.signingkey'',
         ''Please set up SSH key for signing as described in the documentation.''],
      guard [Run (Git_config_get ''commit.gpgsign'')] (git_config_out e ''commit.gpgsign'' \<noteq> ''true'')
        [''Error! Git commit signing is not enabled.'',
         ''Please run: git config --global commit.gpgsign true''],
      echo ''All prerequisites verified successfully!'']"
    by (simp add: numeral_eq_Suc)
  from run_phases_ranks [OF this] show ?thesis
    by (simp add: ranked_def verify_prerequisites_def)
qed

lemma ranked_verify_prerequisites_Suc [simp]: "ranked (Suc 0) (verify_prerequisites e)"
  using ranked_verify_prerequisites by simp

lemma ranked_verify_commit [simp]: "ranked 7 (verify_commit_is_signed e)"
  by (simp add: verify_commit_is_signed_def)

lemma ranked_create_release [simp]: "ranked 9 (create_github_release e)"
  by (simp add: ranked_def create_github_release_def create_github_release_fallback_def Let_def)



lemma not_in_ranked:
  assumes "list_all2 ranked rs ps" and "step_of c = Some s" and "script_rank s \<notin> set rs"
  shows "Run c \<notin> set (fst (run_phases ps))"
  using run_phases_ranks [OF assms(1)] assms(2,3) in_steps by blast











lemma main_front:
  "main args e =
     (arguments_part args e @ [verify_prerequisites e] @ repository_part e @ install_part e
        @ bump_part args e @ build_part e) @ release_part e"
  by (simp add: main_def)

lemma front_ranked:
  "list_all2 ranked [0, 0, 0, 0, 1, 2, 2, 2, 2, 2, 2, 3, 3, 4, 4, 5, 5, 6, 6]
     (arguments_part args e @ [verify_prerequisites e] @ repository_part e @ install_part e
        @ bump_part args e @ build_part e)"
  by (simp add: part_defs)

























text \<open>The run of \<^verbatim>\<open>./scripts/publish patch\<close> on the sample machine.\<close>

lemma release_env_run:
  "publish [''patch''] release_env =
     ([Run Node_is_release_candidate, Run Cd_toplevel,
       Echo ''Verifying prerequisites...'', Run Npm_whoami, Run Yarn_login, Run Which_hub,
       Run (Git_config_get ''gpg.format''), Run (Git_config_get ''user.signingkey''),
       Run (Git_config_get ''user.signingkey''), Run (Git_config_get ''commit.gpgsign''),
       Echo ''All prerequisites verified successfully!'',
       Echo ''Fetching git remotes'', Run Git_fetch, Run Git_status,
       Echo ''Installing dependencies according to lockfile'', Run Yarn_install,
       Echo ''Bumping package.json patch version and tagging commit'',
       Run (Yarn_version [''--patch'']),
       Echo ''Building'', Run Yarn_run_build, Echo ''Running tests'', Run Yarn_run_test,
       Run Git_log_head, Run (Git_show_signature ''0123abcd''),
       Echo ''Pushing git commit and tag'', Run Git_push,
       Run Which_hub_grep, Run Git_tag_list, Run (Git_log_range ''v1.3.1..v1.3.2^''),
       Echo ''Creating GitHub release'', Echo '''', Echo_n ''    '',
       Run (Hub_release_create
              (release_notes ''v1.3.2'' (''- Fix a'' @ [CHR 0x0A] @ ''- Add b'')) ''v1.3.2''),
       Echo ''Publishing release'',
       Run (Yarn_publish [''--non-interactive'', ''--access=public'']),
       Echo ''Publish successful!'', Echo ''''], 0)"
  by (simp add: run_defs env_defs)




subsection \<open>Signature verification\<close>

lemma front_all_None:
  assumes "snd (run_phases (arguments_part args e @ [verify_prerequisites e] @ repository_part e
              @ install_part e @ bump_part args e @ build_part e)) = None"
  shows "Run (Yarn_version (version_flags args e))
           \<in> set (fst (run_phases (arguments_part args e @ [verify_prerequisites e]
                @ repository_part e @ install_part e @ bump_part args e @ build_part e)))"
proof -
  let ?front = "arguments_part args e @ [verify_prerequisites e] @ repository_part e
              @ install_part e @ bump_part args e @ build_part e"
  have "\<forall>p\<in>set ?front. snd p = None"
    using assms by (simp only: run_phases_None)
  from run_phases_all_None [OF this]
  show ?thesis by (simp add: bump_part_def exec_cmd_def)
qed

lemma release_part_unsigned:
  assumes "commit_unsigned e"
  shows "run_phases (release_part e) =
     ([Run Git_log_head, Run (Git_show_signature (git_log_head_out e)),
       Echo (''Error! Commit '' @ git_log_head_out e @ '' is not signed''),
       Echo ''Please follow https://docs.github.com/en/authentication/managing-commit-signature-verification/adding-a-gpg-key-to-your-github-account and sign your commit''],
      Some 1)"
  using assms by (simp add: release_part_def verify_commit_is_signed_def guard_def)

lemma release_part_signed:
  assumes "\<not> commit_unsigned e"
  shows "\<exists>b. fst (run_phases (release_part e)) =
     [Run Git_log_head, Run (Git_show_signature (git_log_head_out e)),
      Echo ''Pushing git commit and tag'', Run Git_push] @ b"
proof -
  obtain b where b: "fst (run_phases (exec_cmd Git_push (git_push_status e) #
      [(if test_ne_1 (is_release_candidate_out e) then create_github_release e else ([], None)),
      echo ''Publishing release'',
      exec_cmd (Yarn_publish (publish_flags e)) (yarn_publish_status e (publish_flags e)),
      echo ''Publish successful!'',
      echo ''''])) = Run Git_push # b"
    using run_phases_exec_head by blast
  have "fst (run_phases (release_part e)) =
     [Run Git_log_head, Run (Git_show_signature (git_log_head_out e)),
      Echo ''Pushing git commit and tag'', Run Git_push] @ b"
    unfolding release_part_def
    using assms b
    by (simp add: run_phases_Cons_None verify_commit_is_signed_def guard_def echo_def
          del: run_phases.simps)
  then show ?thesis by blast
qed

text \<open>
  Claim C7, as stated: a most recent commit that is unsigned or whose signature cannot be
  verified aborts the run. The script looks for the letter N (no signature) in the status
  that \<^verbatim>\<open>git show\<close> prints. On the sample machine with the status E (the signature cannot
  be checked) the run pushes, publishes and exits with code 0.
\<close>

theorem unverifiable_commit_is_pushed:
  "snd (publish [''patch''] (release_env \<lparr>git_show_out := (\<lambda>h. ''E'')\<rparr>)) = 0
   \<and> Run (Git_show_signature ''0123abcd'')
        \<in> set (fst (publish [''patch''] (release_env \<lparr>git_show_out := (\<lambda>h. ''E'')\<rparr>)))
   \<and> Run Git_push \<in> set (fst (publish [''patch''] (release_env \<lparr>git_show_out := (\<lambda>h. ''E'')\<rparr>)))
   \<and> Run (Yarn_publish [''--non-interactive'', ''--access=public''])
        \<in> set (fst (publish [''patch''] (release_env \<lparr>git_show_out := (\<lambda>h. ''E'')\<rparr>)))"
  by (simp add: run_defs env_defs)

lemma unsigned_commit_aborts_aux:
  "(snd (run_phases (arguments_part args e @ [verify_prerequisites e] @ repository_part e
              @ install_part e @ bump_part args e @ build_part e)) = None
      \<and> commit_unsigned e \<longrightarrow>
      publish args e =
        (fst (run_phases (arguments_part args e @ [verify_prerequisites e] @ repository_part e
              @ install_part e @ bump_part args e @ build_part e))
         @ [Run Git_log_head, Run (Git_show_signature (git_log_head_out e)),
            Echo (''Error! Commit '' @ git_log_head_out e @ '' is not signed''),
            Echo ''Please follow https://docs.github.com/en/authentication/managing-commit-signature-verification/adding-a-gpg-key-to-your-github-account and sign your commit''],
         1)
      \<and> Run (Yarn_version (version_flags args e))
           \<in> set (fst (run_phases (arguments_part args e @ [verify_prerequisites e]
                @ repository_part e @ install_part e @ bump_part args e @ build_part e))))
   \<and> (Run Git_push \<in> set (fst (publish args e)) \<longrightarrow>
        \<not> commit_unsigned e
        \<and> (\<exists>a b. fst (publish args e) =
              a @ [Run Git_log_head, Run (Git_show_signature (git_log_head_out e)),
                   Echo ''Pushing git commit and tag'', Run Git_push] @ b
            \<and> Run (Yarn_version (version_flags args e)) \<in> set a))"
proof (intro conjI impI)
  let ?front = "arguments_part args e @ [verify_prerequisites e] @ repository_part e
              @ install_part e @ bump_part args e @ build_part e"
  assume h: "snd (run_phases ?front) = None \<and> commit_unsigned e"
  have "run_phases (main args e) =
          (fst (run_phases ?front) @ fst (run_phases (release_part e)),
           snd (run_phases (release_part e)))"
    unfolding main_front using conjunct1 [OF h] by (rule run_phases_append_None)
  then show "publish args e =
        (fst (run_phases ?front)
         @ [Run Git_log_head, Run (Git_show_signature (git_log_head_out e)),
            Echo (''Error! Commit '' @ git_log_head_out e @ '' is not signed''),
            Echo ''Please follow https://docs.github.com/en/authentication/managing-commit-signature-verification/adding-a-gpg-key-to-your-github-account and sign your commit''],
         1)"
    using h by (simp add: publish_def release_part_unsigned)
  show "Run (Yarn_version (version_flags args e)) \<in> set (fst (run_phases ?front))"
    using h front_all_None by blast
next
  let ?front = "arguments_part args e @ [verify_prerequisites e] @ repository_part e
              @ install_part e @ bump_part args e @ build_part e"
  assume p: "Run Git_push \<in> set (fst (publish args e))"
  have nf: "Run Git_push \<notin> set (fst (run_phases ?front))"
    by (rule not_in_ranked [OF front_ranked, of _ Pushing]) simp_all
  have n: "snd (run_phases ?front) = None"
  proof (cases "snd (run_phases ?front)")
    case None
    then show ?thesis .
  next
    case (Some c)
    then have "run_phases (main args e) = run_phases ?front"
      unfolding main_front by (rule run_phases_append_Some)
    then show ?thesis using p nf by (simp add: fst_publish)
  qed
  then have "run_phases (main args e) =
          (fst (run_phases ?front) @ fst (run_phases (release_part e)),
           snd (run_phases (release_part e)))"
    unfolding main_front by (rule run_phases_append_None)
  then have f: "fst (publish args e) = fst (run_phases ?front) @ fst (run_phases (release_part e))"
    by (simp add: fst_publish)
  then have pr: "Run Git_push \<in> set (fst (run_phases (release_part e)))"
    using p nf by simp
  show u: "\<not> commit_unsigned e"
  proof
    assume "commit_unsigned e"
    from release_part_unsigned [OF this] pr show False by simp
  qed
  obtain b where "fst (run_phases (release_part e)) =
     [Run Git_log_head, Run (Git_show_signature (git_log_head_out e)),
      Echo ''Pushing git commit and tag'', Run Git_push] @ b"
    using release_part_signed [OF u] by blast
  then have "fst (publish args e) =
       fst (run_phases ?front) @ [Run Git_log_head, Run (Git_show_signature (git_log_head_out e)),
                   Echo ''Pushing git commit and tag'', Run Git_push] @ b
     \<and> Run (Yarn_version (version_flags args e)) \<in> set (fst (run_phases ?front))"
    using f front_all_None [OF n] by simp
  then show "\<exists>a b. fst (publish args e) =
              a @ [Run Git_log_head, Run (Git_show_signature (git_log_head_out e)),
                   Echo ''Pushing git commit and tag'', Run Git_push] @ b
            \<and> Run (Yarn_version (version_flags args e)) \<in> set a"
    by blast
qed

lemma signed_commit_is_pushed:
  assumes "snd (run_phases (arguments_part args e @ [verify_prerequisites e] @ repository_part e
              @ install_part e @ bump_part args e @ build_part e)) = None"
      and "\<not> commit_unsigned e"
  shows "\<exists>b. fst (publish args e) =
      fst (run_phases (arguments_part args e @ [verify_prerequisites e] @ repository_part e
              @ install_part e @ bump_part args e @ build_part e))
      @ [Run Git_log_head, Run (Git_show_signature (git_log_head_out e)),
         Echo ''Pushing git commit and tag'', Run Git_push] @ b"
proof -
  let ?front = "arguments_part args e @ [verify_prerequisites e] @ repository_part e
              @ install_part e @ bump_part args e @ build_part e"
  have "run_phases (main args e) =
          (fst (run_phases ?front) @ fst (run_phases (release_part e)),
           snd (run_phases (release_part e)))"
    unfolding main_front using assms(1) by (rule run_phases_append_None)
  then have f: "fst (publish args e) = fst (run_phases ?front) @ fst (run_phases (release_part e))"
    by (simp add: fst_publish)
  obtain b where "fst (run_phases (release_part e)) =
     [Run Git_log_head, Run (Git_show_signature (git_log_head_out e)),
      Echo ''Pushing git commit and tag'', Run Git_push] @ b"
    using release_part_signed [OF assms(2)] by blast
  then have "fst (publish args e) = fst (run_phases ?front)
      @ [Run Git_log_head, Run (Git_show_signature (git_log_head_out e)),
         Echo ''Pushing git commit and tag'', Run Git_push] @ b"
    using f by simp
  then show ?thesis by blast
qed

text \<open>
  Claim C7, amended. Take a run in which everything up to the tests went through, so that
  the version bump has been made. If \<^verbatim>\<open>git show\<close> succeeds and the signature status it
  prints for the most recent commit holds the letter N (no signature), the run ends there:
  it prints that the commit with that hash is not signed and where to read about signing,
  and exits with code 1. If \<^verbatim>\<open>git show\<close> succeeds and the status it prints does not hold N
  (a signature that is bad or cannot be checked, for instance), the commit is not
  rejected: the next events of the run are the message about pushing and the push. And
  in every run that pushes, \<^verbatim>\<open>git show\<close> did not succeed with a status holding N, the push
  comes right after the inspection of the signature, and the version bump comes before
  both.
\<close>

theorem unsigned_commit_aborts:
  "(snd (run_phases (arguments_part args e @ [verify_prerequisites e] @ repository_part e
              @ install_part e @ bump_part args e @ build_part e)) = None
      \<and> git_show_status e (git_log_head_out e) = 0
      \<and> grep_q (lits ''N'') (git_show_out e (git_log_head_out e)) \<longrightarrow>
      publish args e =
        (fst (run_phases (arguments_part args e @ [verify_prerequisites e] @ repository_part e
              @ install_part e @ bump_part args e @ build_part e))
         @ [Run Git_log_head, Run (Git_show_signature (git_log_head_out e)),
            Echo (''Error! Commit '' @ git_log_head_out e @ '' is not signed''),
            Echo ''Please follow https://docs.github.com/en/authentication/managing-commit-signature-verification/adding-a-gpg-key-to-your-github-account and sign your commit''],
         1)
      \<and> Run (Yarn_version (version_flags args e))
           \<in> set (fst (run_phases (arguments_part args e @ [verify_prerequisites e]
                @ repository_part e @ install_part e @ bump_part args e @ build_part e))))
   \<and> (snd (run_phases (arguments_part args e @ [verify_prerequisites e] @ repository_part e
              @ install_part e @ bump_part args e @ build_part e)) = None
      \<and> git_show_status e (git_log_head_out e) = 0
      \<and> \<not> grep_q (lits ''N'') (git_show_out e (git_log_head_out e)) \<longrightarrow>
      (\<exists>b. fst (publish args e) =
         fst (run_phases (arguments_part args e @ [verify_prerequisites e] @ repository_part e
              @ install_part e @ bump_part args e @ build_part e))
         @ [Run Git_log_head, Run (Git_show_signature (git_log_head_out e)),
            Echo ''Pushing git commit and tag'', Run Git_push] @ b))
   \<and> (Run Git_push \<in> set (fst (publish args e)) \<longrightarrow>
        \<not> (git_show_status e (git_log_head_out e) = 0
           \<and> grep_q (lits ''N'') (git_show_out e (git_log_head_out e)))
        \<and> (\<exists>a b. fst (publish args e) =
              a @ [Run Git_log_head, Run (Git_show_signature (git_log_head_out e)),
                   Echo ''Pushing git commit and tag'', Run Git_push] @ b
            \<and> Run (Yarn_version (version_flags args e)) \<in> set a))"
proof (intro conjI)
  note aux = unsigned_commit_aborts_aux [of args e, unfolded commit_unsigned_def]
  show "snd (run_phases (arguments_part args e @ [verify_prerequisites e] @ repository_part e
              @ install_part e @ bump_part args e @ build_part e)) = None
      \<and> git_show_status e (git_log_head_out e) = 0
      \<and> grep_q (lits ''N'') (git_show_out e (git_log_head_out e)) \<longrightarrow>
      publish args e =
        (fst (run_phases (arguments_part args e @ [verify_prerequisites e] @ repository_part e
              @ install_part e @ bump_part args e @ build_part e))
         @ [Run Git_log_head, Run (Git_show_signature (git_log_head_out e)),
            Echo (''Error! Commit '' @ git_log_head_out e @ '' is not signed''),
            Echo ''Please follow https://docs.github.com/en/authentication/managing-commit-signature-verification/adding-a-gpg-key-to-your-github-account and sign your commit''],
         1)
      \<and> Run (Yarn_version (version_flags args e))
           \<in> set (fst (run_phases (arguments_part args e @ [verify_prerequisites e]
                @ repository_part e @ install_part e @ bump_part args e @ build_part e)))"
    using aux [THEN conjunct1] .
  show "Run Git_push \<in> set (fst (publish args e)) \<longrightarrow>
        \<not> (git_show_status e (git_log_head_out e) = 0
           \<and> grep_q (lits ''N'') (git_show_out e (git_log_head_out e)))
        \<and> (\<exists>a b. fst (publish args e) =
              a @ [Run Git_log_head, Run (Git_show_signature (git_log_head_out e)),
                   Echo ''Pushing git commit and tag'', Run Git_push] @ b
            \<and> Run (Yarn_version (version_flags args e)) \<in> set a)"
    using aux [THEN conjunct2] .
  show "snd (run_phases (arguments_part args e @ [verify_prerequisites e] @ repository_part e
              @ install_part e @ bump_part args e @ build_part e)) = None
      \<and> git_show_status e (git_log_head_out e) = 0
      \<and> \<not> grep_q (lits ''N'') (git_show_out e (git_log_head_out e)) \<longrightarrow>
      (\<exists>b. fst (publish args e) =
         fst (run_phases (arguments_part args e @ [verify_prerequisites e] @ repository_part e
              @ install_part e @ bump_part args e @ build_part e))
         @ [Run Git_log_head, Run (Git_show_signature (git_log_head_out e)),
            Echo ''Pushing git commit and tag'', Run Git_push] @ b)"
  proof
    assume h: "snd (run_phases (arguments_part args e @ [verify_prerequisites e] @ repository_part e
              @ install_part e @ bump_part args e @ build_part e)) = None
      \<and> git_show_status e (git_log_head_out e) = 0
      \<and> \<not> grep_q (lits ''N'') (git_show_out e (git_log_head_out e))"
    then have "\<not> commit_unsigned e" by (simp add: commit_unsigned_def)
    from signed_commit_is_pushed [OF conjunct1 [OF h] this]
    show "\<exists>b. fst (publish args e) =
         fst (run_phases (arguments_part args e @ [verify_prerequisites e] @ repository_part e
              @ install_part e @ bump_part args e @ build_part e))
         @ [Run Git_log_head, Run (Git_show_signature (git_log_head_out e)),
            Echo ''Pushing git commit and tag'', Run Git_push] @ b" .
  qed
qed

theorem unsigned_commit_aborts_witness:
  "git_show_status (release_env \<lparr>git_show_out := (\<lambda>h. ''N'')\<rparr>) ''0123abcd'' = 0
   \<and> grep_q (lits ''N'') (git_show_out (release_env \<lparr>git_show_out := (\<lambda>h. ''N'')\<rparr>) ''0123abcd'')
   \<and> snd (publish [''patch''] (release_env \<lparr>git_show_out := (\<lambda>h. ''N'')\<rparr>)) = 1
   \<and> (\<exists>pre. fst (publish [''patch''] (release_env \<lparr>git_show_out := (\<lambda>h. ''N'')\<rparr>)) =
         pre @ [Run Git_log_head, Run (Git_show_signature ''0123abcd''),
            Echo ''Error! Commit 0123abcd is not signed'',
            Echo ''Please follow https://docs.github.com/en/authentication/managing-commit-signature-verification/adding-a-gpg-key-to-your-github-account and sign your commit''])
   \<and> Run Git_push \<notin> set (fst (publish [''patch''] (release_env \<lparr>git_show_out := (\<lambda>h. ''N'')\<rparr>)))
   \<and> git_show_status (release_env \<lparr>git_show_out := (\<lambda>h. ''B'')\<rparr>) ''0123abcd'' = 0
   \<and> \<not> grep_q (lits ''N'') (git_show_out (release_env \<lparr>git_show_out := (\<lambda>h. ''B'')\<rparr>) ''0123abcd'')
   \<and> Run Git_push \<in> set (fst (publish [''patch''] (release_env \<lparr>git_show_out := (\<lambda>h. ''B'')\<rparr>)))
   \<and> Run Git_push \<in> set (fst (publish [''patch''] release_env))
   \<and> \<not> (git_show_status release_env ''0123abcd'' = 0
         \<and> grep_q (lits ''N'') (git_show_out release_env ''0123abcd''))"
proof -
  let ?e = "release_env \<lparr>git_show_out := (\<lambda>h. ''N'')\<rparr>"
  let ?front = "arguments_part [''patch''] ?e @ [verify_prerequisites ?e] @ repository_part ?e
              @ install_part ?e @ bump_part [''patch''] ?e @ build_part ?e"
  let ?b = "release_env \<lparr>git_show_out := (\<lambda>h. ''B'')\<rparr>"
  let ?frontb = "arguments_part [''patch''] ?b @ [verify_prerequisites ?b] @ repository_part ?b
              @ install_part ?b @ bump_part [''patch''] ?b @ build_part ?b"
  have u: "git_show_status ?e ''0123abcd'' = 0"
      "grep_q (lits ''N'') (git_show_out ?e ''0123abcd'')"
    by (simp_all add: lits_def release_env_def)
  have n: "snd (run_phases ?front) = None"
    by (simp add: run_defs env_defs)
  have h: "git_log_head_out ?e = ''0123abcd''" "git_log_head_out ?b = ''0123abcd''"
    "git_log_head_out release_env = ''0123abcd''"
    by (simp_all add: release_env_def)
  note th = unsigned_commit_aborts [of "[''patch'']" ?e, unfolded h]
  have eq: "publish [''patch''] ?e =
        (fst (run_phases ?front)
         @ [Run Git_log_head, Run (Git_show_signature ''0123abcd''),
            Echo ''Error! Commit 0123abcd is not signed'',
            Echo ''Please follow https://docs.github.com/en/authentication/managing-commit-signature-verification/adding-a-gpg-key-to-your-github-account and sign your commit''],
         1)"
    using th [THEN conjunct1] u n by simp
  have a: "snd (publish [''patch''] ?e) = 1" using eq by simp
  have b: "\<exists>pre. fst (publish [''patch''] ?e) =
         pre @ [Run Git_log_head, Run (Git_show_signature ''0123abcd''),
            Echo ''Error! Commit 0123abcd is not signed'',
            Echo ''Please follow https://docs.github.com/en/authentication/managing-commit-signature-verification/adding-a-gpg-key-to-your-github-account and sign your commit'']"
    using eq by simp
  have c: "Run Git_push \<notin> set (fst (publish [''patch''] ?e))"
    using th [THEN conjunct2, THEN conjunct2] u by blast
  have ub: "git_show_status ?b ''0123abcd'' = 0"
      "\<not> grep_q (lits ''N'') (git_show_out ?b ''0123abcd'')"
    by (simp_all add: lits_def release_env_def)
  have nb: "snd (run_phases ?frontb) = None"
    by (simp add: run_defs env_defs)
  have "\<exists>b. fst (publish [''patch''] ?b) =
         fst (run_phases ?frontb)
         @ [Run Git_log_head, Run (Git_show_signature ''0123abcd''),
            Echo ''Pushing git commit and tag'', Run Git_push] @ b"
    using unsigned_commit_aborts [of "[''patch'']" ?b, unfolded h, THEN conjunct2, THEN conjunct1]
      ub nb by blast
  then have pb: "Run Git_push \<in> set (fst (publish [''patch''] ?b))"
    by auto
  have d: "Run Git_push \<in> set (fst (publish [''patch''] release_env))"
    by (simp add: release_env_run)
  have f: "\<not> (git_show_status release_env ''0123abcd'' = 0
         \<and> grep_q (lits ''N'') (git_show_out release_env ''0123abcd''))"
    using unsigned_commit_aborts [of "[''patch'']" release_env, unfolded h,
        THEN conjunct2, THEN conjunct2] d
    by blast
  show ?thesis using u a b c ub pb d f by (intro conjI)
qed

subsection \<open>Repository state\<close>

text \<open>
  The three checks of lines 187 to 200 look for three phrases in the output of
  \<^verbatim>\<open>git status\<close>. In a run that got past the prerequisite verification, with a successful
  fetch and status, the first phrase that is missing ends the run with its own message
  and exit code 1, before the installation.
\<close>

lemma repository_part_run:
  assumes "git_fetch_status e = 0" and "git_status_status e = 0"
  shows "run_phases (repository_part e) =
     ([Echo ''Fetching git remotes'', Run Git_fetch, Run Git_status]
        @ (if \<not> grep_q (lits ''On branch master'') (git_status_out e)
           then [Echo ''Error! Must be on master branch to publish'']
           else if \<not> grep_q (lits (''Your branch is up to date with 'origin/master'' @ [CHR 0x27])
                          @ [Dot]) (git_status_out e)
           then [Echo ''Error! Must be up to date with origin/master to publish'']
           else if \<not> grep_q (lits ''working tree clean'') (git_status_out e)
           then [Echo ''Error! Cannot publish with dirty working tree'']
           else []),
      if grep_q (lits ''On branch master'') (git_status_out e)
         \<and> grep_q (lits (''Your branch is up to date with 'origin/master'' @ [CHR 0x27]) @ [Dot])
              (git_status_out e)
         \<and> grep_q (lits ''working tree clean'') (git_status_out e)
      then None else Some 1)"
  using assms by (simp add: repository_part_def exec_cmd_def echo_def guard_def)

lemma main_at_repository:
  "main args e =
     ((arguments_part args e @ [verify_prerequisites e]) @ repository_part e)
     @ (install_part e @ bump_part args e @ build_part e @ release_part e)"
  by (simp add: main_def)

lemma repository_gate_aborts:
  assumes "snd (run_phases (arguments_part args e @ [verify_prerequisites e])) = None"
      and "git_fetch_status e = 0" and "git_status_status e = 0"
      and "\<not> (grep_q (lits ''On branch master'') (git_status_out e)
         \<and> grep_q (lits (''Your branch is up to date with 'origin/master'' @ [CHR 0x27]) @ [Dot])
              (git_status_out e)
         \<and> grep_q (lits ''working tree clean'') (git_status_out e))"
  shows "publish args e =
     (fst (run_phases (arguments_part args e @ [verify_prerequisites e]))
        @ fst (run_phases (repository_part e)), 1)
     \<and> Run Yarn_install \<notin> set (fst (publish args e))"
proof -
  define front where
    "front = (arguments_part args e @ [verify_prerequisites e]) @ repository_part e"
  define rest where
    "rest = install_part e @ bump_part args e @ build_part e @ release_part e"
  have m: "main args e = front @ rest"
    by (simp add: main_def front_def rest_def)
  have s: "snd (run_phases (repository_part e)) = Some 1"
    using assms(4) by (simp add: repository_part_run [OF assms(2,3)])
  have a: "run_phases front =
      (fst (run_phases (arguments_part args e @ [verify_prerequisites e]))
         @ fst (run_phases (repository_part e)), Some 1)"
    unfolding front_def
    using run_phases_append_None [OF assms(1), of "repository_part e"] s by simp
  then have "snd (run_phases front) = Some 1" by simp
  from run_phases_append_Some [OF this, of rest]
  have r: "run_phases (main args e) = run_phases front" unfolding m .
  have "list_all2 ranked [0, 0, 0, 0, 1, 2, 2, 2, 2, 2, 2] front"
    unfolding front_def by (simp add: part_defs)
  from not_in_ranked [OF this, of Yarn_install Installing]
  have "Run Yarn_install \<notin> set (fst (run_phases front))"
    by simp
  then show ?thesis using r a by (simp add: publish_def)
qed

text \<open>
  Claim C8. The check for the release branch should let only the branch master through.
  It looks for the phrase "On branch master" anywhere in a line, so it also accepts a
  branch whose name begins with master. A branch master-hotfix that tracks origin/master,
  up to date and clean, gives the status text \<open>master_hotfix_status\<close>; the run passes the three checks,
  installs, bumps the version, pushes and publishes, and exits with code 0.
\<close>

theorem master_hotfix_branch_is_published:
  "grep_q (lits ''On branch master'') master_hotfix_status
   \<and> snd (publish [''patch''] (release_env \<lparr>git_status_out := master_hotfix_status\<rparr>)) = 0
   \<and> Run Yarn_install
        \<in> set (fst (publish [''patch''] (release_env \<lparr>git_status_out := master_hotfix_status\<rparr>)))
   \<and> Run (Yarn_version [''--patch''])
        \<in> set (fst (publish [''patch''] (release_env \<lparr>git_status_out := master_hotfix_status\<rparr>)))
   \<and> Run Git_push
        \<in> set (fst (publish [''patch''] (release_env \<lparr>git_status_out := master_hotfix_status\<rparr>)))
   \<and> Run (Yarn_publish [''--non-interactive'', ''--access=public''])
        \<in> set (fst (publish [''patch''] (release_env \<lparr>git_status_out := master_hotfix_status\<rparr>)))"
  by (simp add: run_defs env_defs master_hotfix_status_def)

subsection \<open>The version bump\<close>

text \<open>
  The flags of \<^verbatim>\<open>yarn version\<close> that the script chooses for the rows of the transition table
  of the specification.
\<close>

lemma version_flags_rows:
  "version_flags [''patch''] release_env = [''--patch'']"
  "version_flags [''major''] release_env = [''--major'']"
  "version_flags [] candidate_env = [''--prerelease'', ''--preid=rc'']"
  "version_flags [''patch''] candidate_env = [''--prepatch'', ''--preid=rc'']"
  by (simp_all add: version_flags_def test_eq_1_def release_type_of_def env_defs)

lemma read_123: "read_version ''1.2.3'' = Some \<lparr> v_major = 1, v_minor = 2, v_patch = 3, v_candidate = None \<rparr>"
  by (simp add: read_version_def read_nat_def read_candidate_def digit_value_def)

lemma read_123rc0: "read_version ''1.2.3-rc.0'' = Some \<lparr> v_major = 1, v_minor = 2, v_patch = 3, v_candidate = Some 0 \<rparr>"
  by (simp add: read_version_def read_nat_def read_candidate_def digit_value_def)

lemma show_small: "show_nat 0 = ''0''" "show_nat 1 = ''1''" "show_nat 2 = ''2''" "show_nat 3 = ''3''" "show_nat 4 = ''4''"
  by (simp_all add: show_nat.simps)

lemma show_small_Suc: "show_nat (Suc 0) = ''1''" "show_nat (Suc (Suc 0)) = ''2''"
  by (simp_all add: show_nat.simps)

text \<open>
  Claim C1. With the version arithmetic of \<^verbatim>\<open>yarn version\<close> as the specification describes
  it, the flags that the script chooses give the transition table: in a run that is not a
  prerelease run, patch takes 1.2.3 to 1.2.4 and major takes 1.2.3-rc.0 to 2.0.0; in a
  prerelease run, no release type takes 1.2.3 to 1.2.3-rc.0 and 1.2.3-rc.0 to 1.2.3-rc.1,
  and patch takes 1.2.3-rc.0 to 1.2.4-rc.0. In every run that is not a prerelease run the
  release types patch, minor and major bump their component and strip the suffix, so
  patch takes 1.2.3-rc.0 to 1.2.4.
\<close>

theorem version_bump_table:
  assumes "is_release_candidate_out r = Some n" and "n \<noteq> 1"
      and "is_release_candidate_out c = Some 1"
  shows "bump_version [''patch''] r ''1.2.3'' = Some ''1.2.4''
     \<and> bump_version [] c ''1.2.3'' = Some ''1.2.3-rc.0''
     \<and> bump_version [] c ''1.2.3-rc.0'' = Some ''1.2.3-rc.1''
     \<and> bump_version [''patch''] c ''1.2.3-rc.0'' = Some ''1.2.4-rc.0''
     \<and> bump_version [''major''] r ''1.2.3-rc.0'' = Some ''2.0.0''
     \<and> bump_version [''patch''] r ''1.2.3-rc.0'' = Some ''1.2.4''
     \<and> yarn_version (version_flags (''patch'' # rest) r) v
          = Some (v \<lparr> v_patch := v_patch v + 1, v_candidate := None \<rparr>)
     \<and> yarn_version (version_flags (''minor'' # rest) r) v
          = Some (v \<lparr> v_minor := v_minor v + 1, v_patch := 0, v_candidate := None \<rparr>)
     \<and> yarn_version (version_flags (''major'' # rest) r) v
          = Some (v \<lparr> v_major := v_major v + 1, v_minor := 0, v_patch := 0, v_candidate := None \<rparr>)"
  using assms
  by (simp add: bump_version_def read_123 read_123rc0 version_flags_def test_eq_1_def
        release_type_of_def yarn_version_def show_version_def show_small show_small_Suc)

theorem version_bump_table_witness:
  "is_release_candidate_out release_env = Some 0 \<and> (0::int) \<noteq> 1
   \<and> is_release_candidate_out candidate_env = Some 1
   \<and> bump_version [''patch''] release_env ''1.2.3'' = Some ''1.2.4''
   \<and> bump_version [] candidate_env ''1.2.3'' = Some ''1.2.3-rc.0''
   \<and> bump_version [] candidate_env ''1.2.3-rc.0'' = Some ''1.2.3-rc.1''
   \<and> bump_version [''patch''] candidate_env ''1.2.3-rc.0'' = Some ''1.2.4-rc.0''
   \<and> bump_version [''major''] release_env ''1.2.3-rc.0'' = Some ''2.0.0''
   \<and> bump_version [''patch''] release_env ''1.2.3-rc.0'' = Some ''1.2.4''"
proof -
  have a: "is_release_candidate_out release_env = Some 0" "(0::int) \<noteq> 1"
    "is_release_candidate_out candidate_env = Some 1"
    by (simp_all add: env_defs)
  from version_bump_table [OF a] a show ?thesis by simp
qed

lemma ranked_member:
  assumes "list_all2 ranked rs ps" and "p \<in> set ps"
  shows "\<exists>r\<in>set rs. ranked r p"
  using assms by (induction rs ps rule: list_all2_induct) auto

lemma ranked_excludes:
  assumes "list_all2 ranked rs ps" and "p \<in> set ps"
      and "step_of c = Some s" and "script_rank s \<notin> set rs"
  shows "Run c \<notin> set (fst p)"
proof
  assume "Run c \<in> set (fst p)"
  then have "s \<in> set (steps (fst p))" using assms(3) in_steps by blast
  moreover obtain r where "r \<in> set rs" "ranked r p"
    using ranked_member [OF assms(1,2)] by blast
  ultimately show False using assms(4) by (auto simp add: ranked_def)
qed

lemma before_bump_ranked:
  "list_all2 ranked [0, 0, 0, 0, 1, 2, 2, 2, 2, 2, 2, 3, 3]
     (arguments_part args e @ [verify_prerequisites e] @ repository_part e @ install_part e)"
  by (simp add: part_defs)

lemma after_bump_ranked:
  "list_all2 ranked [5, 5, 6, 6, 7, 8, 8, 9, 10, 10, 10, 10] (build_part e @ release_part e)"
  by (simp add: part_defs ranked_def [of _ "([], None)"])

lemma main_at_bump:
  "main args e =
     (arguments_part args e @ [verify_prerequisites e] @ repository_part e @ install_part e)
     @ (bump_part args e @ build_part e @ release_part e)"
  by (simp add: main_def)

lemma version_event_flags:
  assumes "Run (Yarn_version f) \<in> set (fst (publish args e))"
  shows "f = version_flags args e"
proof -
  obtain p where p: "p \<in> set (main args e)" "Run (Yarn_version f) \<in> set (fst p)"
    using assms run_phases_events unfolding fst_publish by blast
  have a: "p \<notin> set (arguments_part args e @ [verify_prerequisites e] @ repository_part e
                 @ install_part e)"
    using ranked_excludes [OF before_bump_ranked, of p args e "Yarn_version f" Bumping] p(2)
    by auto
  have b: "p \<notin> set (build_part e @ release_part e)"
    using ranked_excludes [OF after_bump_ranked, of p e "Yarn_version f" Bumping] p(2)
    by auto
  have "p \<in> set (bump_part args e)"
    using p(1) a b unfolding main_at_bump by auto
  then show ?thesis using p(2) by (auto simp add: bump_part_def echo_def exec_cmd_def)
qed

lemma bump_reached:
  assumes "snd (run_phases (arguments_part args e @ [verify_prerequisites e]
             @ repository_part e @ install_part e)) = None"
  shows "Run (Yarn_version (version_flags args e)) \<in> set (fst (publish args e))"
proof -
  let ?x = "arguments_part args e @ [verify_prerequisites e] @ repository_part e @ install_part e"
  obtain b where b: "fst (run_phases
       (exec_cmd (Yarn_version (version_flags args e))
          (yarn_version_status e (version_flags args e)) # build_part e @ release_part e))
       = Run (Yarn_version (version_flags args e)) # b"
    using run_phases_exec_head by blast
  have "fst (run_phases (bump_part args e @ build_part e @ release_part e)) =
       Echo (''Bumping package.json '' @ release_type_of args @ '' version and tagging commit'')
       # Run (Yarn_version (version_flags args e)) # b"
    unfolding bump_part_def using b
    by (simp add: run_phases_Cons_None echo_def del: run_phases.simps)
  moreover have "run_phases (main args e) =
       (fst (run_phases ?x) @ fst (run_phases (bump_part args e @ build_part e @ release_part e)),
        snd (run_phases (bump_part args e @ build_part e @ release_part e)))"
    unfolding main_at_bump using assms by (rule run_phases_append_None)
  ultimately show ?thesis by (simp add: fst_publish)
qed

lemma candidate_arguments:
  assumes "node_status e = 0" and "is_release_candidate_out e = Some 1"
      and "a \<notin> {''-h'', ''--help'', ''help''}"
  shows "run_phases (arguments_part (a # rest) e) =
     ([Run Node_is_release_candidate, Run Cd_toplevel],
      if cd_status e = 0 then None else Some (cd_status e))"
  using assms by (simp add: arguments_part_def phase_defs test_ne_1_def)

text \<open>
  Claim C10, as stated: in a prerelease run every first argument that is no help token is
  spliced into the flag of the version bump. An empty first argument is not: the script
  tests the release type for emptiness (line 209), so \<^verbatim>\<open>./scripts/publish ""\<close> runs
  \<^verbatim>\<open>yarn version --prerelease --preid=rc\<close>, as a run without argument does, and not
  \<^verbatim>\<open>yarn version --pre --preid=rc\<close>.
\<close>

theorem empty_release_type_not_spliced:
  "Run (Yarn_version [''--prerelease'', ''--preid=rc'']) \<in> set (fst (publish [''''] candidate_env))
   \<and> Run (Yarn_version [''--pre'', ''--preid=rc'']) \<notin> set (fst (publish [''''] candidate_env))"
  by (simp add: run_defs env_defs)

text \<open>
  Claim C10, amended. In a prerelease run (the release-candidate script printed 1) whose
  first argument is no help token, the argument validation prints nothing and does not
  end the run: after the release-candidate script the next event is the change of
  directory. Every version bump of such a run has the flags \<^verbatim>\<open>--preARG --preid=rc\<close> for a
  non-empty first argument \<^verbatim>\<open>ARG\<close>, whatever it is, and \<^verbatim>\<open>--prerelease --preid=rc\<close> for an
  empty one; and the bump with these flags happens in every such run that gets through
  the prerequisite, repository and installation steps.
\<close>

theorem candidate_release_type_unvalidated:
  assumes "node_status e = 0" and "is_release_candidate_out e = Some 1"
      and "a \<notin> {''-h'', ''--help'', ''help''}"
  shows "(\<exists>tl. fst (publish (a # rest) e) = Run Node_is_release_candidate # Run Cd_toplevel # tl)
     \<and> (\<forall>f. Run (Yarn_version f) \<in> set (fst (publish (a # rest) e)) \<longrightarrow>
           f = (if a = [] then [''--prerelease'', ''--preid=rc'']
                else [''--pre'' @ a, ''--preid=rc'']))
     \<and> (snd (run_phases (arguments_part (a # rest) e @ [verify_prerequisites e]
            @ repository_part e @ install_part e)) = None \<longrightarrow>
         Run (Yarn_version (if a = [] then [''--prerelease'', ''--preid=rc'']
                            else [''--pre'' @ a, ''--preid=rc'']))
           \<in> set (fst (publish (a # rest) e)))"
proof (intro conjI allI impI)
  have v: "version_flags (a # rest) e =
       (if a = [] then [''--prerelease'', ''--preid=rc''] else [''--pre'' @ a, ''--preid=rc''])"
    using assms(2) by (simp add: version_flags_def test_eq_1_def release_type_of_def)
  note r = candidate_arguments [OF assms, of rest]
  show "\<exists>tl. fst (publish (a # rest) e) = Run Node_is_release_candidate # Run Cd_toplevel # tl"
  proof (cases "cd_status e = 0")
    case True
    then have "snd (run_phases (arguments_part (a # rest) e)) = None" using r by simp
    from run_phases_append_None [OF this] r
    show ?thesis unfolding fst_publish main_arguments by simp
  next
    case False
    then have "snd (run_phases (arguments_part (a # rest) e)) = Some (cd_status e)"
      using r by simp
    from run_phases_append_Some [OF this] r
    show ?thesis unfolding fst_publish main_arguments by simp
  qed
  show "f = (if a = [] then [''--prerelease'', ''--preid=rc''] else [''--pre'' @ a, ''--preid=rc''])"
    if "Run (Yarn_version f) \<in> set (fst (publish (a # rest) e))" for f
    using version_event_flags [OF that] v by simp
  show "Run (Yarn_version (if a = [] then [''--prerelease'', ''--preid=rc'']
                            else [''--pre'' @ a, ''--preid=rc'']))
           \<in> set (fst (publish (a # rest) e))"
    if "snd (run_phases (arguments_part (a # rest) e @ [verify_prerequisites e]
            @ repository_part e @ install_part e)) = None"
    using bump_reached [OF that] v by simp
qed

theorem candidate_release_type_unvalidated_witness:
  "node_status candidate_env = 0 \<and> is_release_candidate_out candidate_env = Some 1
   \<and> ''foo'' \<notin> {''-h'', ''--help'', ''help''}
   \<and> snd (run_phases (arguments_part [''foo''] candidate_env @ [verify_prerequisites candidate_env]
            @ repository_part candidate_env @ install_part candidate_env)) = None
   \<and> (\<exists>tl. fst (publish [''foo''] candidate_env)
          = Run Node_is_release_candidate # Run Cd_toplevel # tl)
   \<and> Run (Yarn_version [''--prefoo'', ''--preid=rc'']) \<in> set (fst (publish [''foo''] candidate_env))"
proof -
  have a: "node_status candidate_env = 0" "is_release_candidate_out candidate_env = Some 1"
    by (simp_all add: env_defs)
  have b: "''foo'' \<notin> {''-h'', ''--help'', ''help''}" by simp
  have c: "snd (run_phases (arguments_part [''foo''] candidate_env
            @ [verify_prerequisites candidate_env]
            @ repository_part candidate_env @ install_part candidate_env)) = None"
    by (simp add: run_defs env_defs)
  note th = candidate_release_type_unvalidated [OF a b, of "[]"]
  have d: "\<exists>tl. fst (publish [''foo''] candidate_env)
          = Run Node_is_release_candidate # Run Cd_toplevel # tl"
    using th by blast
  have "Run (Yarn_version (if ''foo'' = [] then [''--prerelease'', ''--preid=rc'']
                            else [''--pre'' @ ''foo'', ''--preid=rc'']))
           \<in> set (fst (publish [''foo''] candidate_env))"
    using th c by blast
  then have f: "Run (Yarn_version [''--prefoo'', ''--preid=rc''])
           \<in> set (fst (publish [''foo''] candidate_env))"
    by simp
  show ?thesis using a b c d f by (intro conjI)
qed

end
